theory Spec2Isabelle
  imports Complex_Main "HOL-Library.AList" "HOL-Library.Multiset" "HOL-Library.Sublist"
begin

section \<open>Numbers\<close>

text \<open>
  The values that arrive from the GraphQL layer are JSON numbers, hence finite; they are
  modelled as \<open>real\<close> (timestamps, which \<open>Date.getTime\<close> returns as whole milliseconds, as
  \<open>int\<close>). Arithmetic on them is exact: the rounding of IEEE doubles, overflow and the
  sign of zero are outside the model. What the model keeps of IEEE arithmetic is the
  part the renderer can run into: a division whose denominator is zero does not throw, it
  yields \<open>NaN\<close> (for \<open>0 / 0\<close>) or an infinity, and these values propagate through the
  operators. The type \<open>jsnum\<close> is used wherever the source divides without a guard;
  where the source guards the denominator first, plain \<open>real\<close> division is used.
  The one place where a statement depends on the last bit of a coordinate is the
  polar-to-Cartesian conversion; it is modelled a second time, with the rounding of the
  doubles, as \<open>polarToCartesian64\<close>.
\<close>

datatype jsnum = Fin real | PosInf | NegInf | NaN

fun isFinite :: "jsnum \<Rightarrow> bool" where
  "isFinite (Fin a) = True"
| "isFinite _ = False"

fun jsneg :: "jsnum \<Rightarrow> jsnum" where
  "jsneg (Fin a) = Fin (- a)"
| "jsneg PosInf = NegInf"
| "jsneg NegInf = PosInf"
| "jsneg NaN = NaN"

fun jsadd :: "jsnum \<Rightarrow> jsnum \<Rightarrow> jsnum" where
  "jsadd (Fin a) (Fin b) = Fin (a + b)"
| "jsadd NaN _ = NaN"
| "jsadd _ NaN = NaN"
| "jsadd PosInf NegInf = NaN"
| "jsadd NegInf PosInf = NaN"
| "jsadd PosInf _ = PosInf"
| "jsadd _ PosInf = PosInf"
| "jsadd NegInf _ = NegInf"
| "jsadd _ NegInf = NegInf"

definition jssub :: "jsnum \<Rightarrow> jsnum \<Rightarrow> jsnum" where
  "jssub a b = jsadd a (jsneg b)"

fun jsmul :: "jsnum \<Rightarrow> jsnum \<Rightarrow> jsnum" where
  "jsmul (Fin a) (Fin b) = Fin (a * b)"
| "jsmul NaN _ = NaN"
| "jsmul _ NaN = NaN"
| "jsmul (Fin a) i = (if a = 0 then NaN else if 0 < a then i else jsneg i)"
| "jsmul i (Fin b) = (if b = 0 then NaN else if 0 < b then i else jsneg i)"
| "jsmul PosInf i = i"
| "jsmul NegInf i = jsneg i"

fun jsdiv :: "jsnum \<Rightarrow> jsnum \<Rightarrow> jsnum" where
  "jsdiv (Fin a) (Fin b) =
     (if b = 0 then (if a = 0 then NaN else if 0 < a then PosInf else NegInf)
      else Fin (a / b))"
| "jsdiv NaN _ = NaN"
| "jsdiv _ NaN = NaN"
| "jsdiv (Fin a) _ = Fin 0"
| "jsdiv PosInf (Fin b) = (if 0 \<le> b then PosInf else NegInf)"
| "jsdiv NegInf (Fin b) = (if 0 \<le> b then NegInf else PosInf)"
| "jsdiv _ _ = NaN"

text \<open>\<open>Math.floor\<close>: the special values are returned unchanged.\<close>

fun jsfloor :: "jsnum \<Rightarrow> jsnum" where
  "jsfloor (Fin a) = Fin (of_int \<lfloor>a\<rfloor>)"
| "jsfloor i = i"

text \<open>The comparison \<open>a > b\<close>: false as soon as one side is \<open>NaN\<close>.\<close>

fun jsgt :: "jsnum \<Rightarrow> jsnum \<Rightarrow> bool" where
  "jsgt (Fin a) (Fin b) = (b < a)"
| "jsgt NaN _ = False"
| "jsgt _ NaN = False"
| "jsgt PosInf PosInf = False"
| "jsgt PosInf _ = True"
| "jsgt _ PosInf = False"
| "jsgt NegInf _ = False"
| "jsgt _ NegInf = True"

section \<open>The document\<close>

text \<open>
  \<open>document.getElementById\<close> returns the element or \<open>null\<close>: the container is an
  \<open>element option\<close>. Of the element the renderers read \<open>clientWidth\<close> and write
  \<open>innerHTML\<close>. Writing a property of \<open>null\<close> throws a \<open>TypeError\<close>, and so does reading a
  property of \<open>undefined\<close>; a call that throws is \<open>Inl TypeError\<close>. A call that returns has
  left in the container either a placeholder paragraph with a message, or the chart.

  Of a chart the model keeps the numbers that position its shapes. The gradient, the two
  axis lines (whose coordinates are constants of the width), colours and fonts, the texts
  that the formatting helpers produce, the tooltips and the animation are left out.
\<close>

datatype error = TypeError

datatype element = Element (clientWidth: real)

datatype 'chart rendering = Placeholder string | Svg 'chart

text \<open>
  \<open>container.innerHTML = '<p ...>message</p>'\<close> on the looked-up container.
\<close>

fun setPlaceholder :: "element option \<Rightarrow> string \<Rightarrow> error + 'chart rendering" where
  "setPlaceholder None msg = Inl TypeError"
| "setPlaceholder (Some c) msg = Inr (Placeholder msg)"

section \<open>Shared geometry\<close>

text \<open>
  The path data of an SVG \<open>path\<close> element is the list of its commands; \<open>largeArc\<close> is
  the string \<open>'0'\<close> or \<open>'1'\<close> as in the source, the sweep flag the number 0 or 1. The
  type of the coordinates is a parameter: \<open>real\<close> for the slices, \<open>jsnum\<close> for the
  time series.
\<close>

datatype 'n pathCmd =
    MoveTo 'n 'n
  | LineTo 'n 'n
  | ArcTo 'n 'n 'n string nat 'n 'n
  | ClosePath

fun largeArcFlags :: "'n pathCmd list \<Rightarrow> string list" where
  "largeArcFlags [] = []"
| "largeArcFlags (ArcTo rx ry rot largeArc sweep ex ey # cs) = largeArc # largeArcFlags cs"
| "largeArcFlags (c # cs) = largeArcFlags cs"

definition polarToCartesian :: "real \<Rightarrow> real \<Rightarrow> real \<Rightarrow> real \<Rightarrow> real \<times> real" where
  "polarToCartesian cx cy radius angle =
     (let angleRad = (angle - 90) * pi / 180
      in (cx + radius * cos angleRad, cy + radius * sin angleRad))"

definition createPieSlice :: "real \<Rightarrow> real \<Rightarrow> real \<Rightarrow> real \<Rightarrow> real \<Rightarrow> real pathCmd list" where
  "createPieSlice cx cy radius startAngle endAngle =
     (let start = polarToCartesian cx cy radius endAngle;
          end = polarToCartesian cx cy radius startAngle;
          largeArc = (if endAngle - startAngle \<le> 180 then ''0'' else ''1'')
      in [MoveTo cx cy,
          LineTo (fst start) (snd start),
          ArcTo radius radius 0 largeArc 0 (fst end) (snd end),
          ClosePath])"

definition createDonutSlice ::
  "real \<Rightarrow> real \<Rightarrow> real \<Rightarrow> real \<Rightarrow> real \<Rightarrow> real \<Rightarrow> real pathCmd list" where
  "createDonutSlice cx cy radius innerRadius startAngle endAngle =
     (let start = polarToCartesian cx cy radius endAngle;
          end = polarToCartesian cx cy radius startAngle;
          innerStart = polarToCartesian cx cy innerRadius endAngle;
          innerEnd = polarToCartesian cx cy innerRadius startAngle;
          largeArc = (if endAngle - startAngle \<le> 180 then ''0'' else ''1'')
      in [MoveTo (fst start) (snd start),
          ArcTo radius radius 0 largeArc 0 (fst end) (snd end),
          LineTo (fst innerEnd) (snd innerEnd),
          ArcTo innerRadius innerRadius 0 largeArc 1 (fst innerStart) (snd innerStart),
          ClosePath])"

section \<open>The conversion in binary64 arithmetic\<close>

text \<open>
  A JavaScript number is an IEEE binary64 value, and every arithmetic operation returns
  the exact result rounded to the nearest such value, ties to the even significand.
  \<open>round64\<close> is that rounding on the reals: a value with binary exponent \<open>e\<close> is rounded
  to a multiple of \<open>2^(e - 52)\<close>. The exponent is not bounded (no overflow, no subnormal
  numbers), and a real \<open>v\<close> is a double when \<open>round64 v = v\<close>.
\<close>

definition roundHalfEven :: "real \<Rightarrow> int" where
  "roundHalfEven v =
     (let f = \<lfloor>v\<rfloor>; d = v - of_int f
      in if d < 1 / 2 then f else if 1 / 2 < d then f + 1 else if even f then f else f + 1)"

definition binaryExponent :: "real \<Rightarrow> int" where
  "binaryExponent v = \<lfloor>log 2 \<bar>v\<bar>\<rfloor>"

definition round64 :: "real \<Rightarrow> real" where
  "round64 v =
     (if v = 0 then 0
      else (let u = 2 powr of_int (binaryExponent v - 52)
            in u * of_int (roundHalfEven (v / u))))"

text \<open>
  \<open>Math.PI\<close> is the double nearest to \<open>\<pi>\<close>, \<open>884279719003555 / 2^48\<close>, a little below
  \<open>\<pi>\<close>; \<open>halfGap\<close> is the distance of \<open>Math.PI / 2\<close> from \<open>\<pi> / 2\<close>. The language leaves
  the accuracy of \<open>Math.cos\<close> and \<open>Math.sin\<close> to the implementation; they are taken to be
  correctly rounded, which at \<open>-Math.PI / 2\<close> gives the values the engines return
  (\<open>6.123233995736766e-17\<close> and \<open>-1\<close>).
\<close>

definition MathPI :: real where
  "MathPI = 884279719003555 / 2 ^ 48"

definition halfGap :: real where
  "halfGap = pi / 2 - MathPI / 2"

definition mathCos :: "real \<Rightarrow> real" where
  "mathCos v = round64 (cos v)"

definition mathSin :: "real \<Rightarrow> real" where
  "mathSin v = round64 (sin v)"

text \<open>
  \<open>polarToCartesian\<close> with each operation of the source followed by its rounding:
  \<open>(angle - 90) * Math.PI / 180\<close> is two multiplicative steps after the subtraction, and
  each coordinate is a product and a sum. \<open>polarToCartesian\<close> above is the same function
  in exact arithmetic; the paths of the slices are built from it.
\<close>

definition polarToCartesian64 :: "real \<Rightarrow> real \<Rightarrow> real \<Rightarrow> real \<Rightarrow> real \<times> real" where
  "polarToCartesian64 cx cy radius angle =
     (let angleRad = round64 (round64 (round64 (angle - 90) * MathPI) / 180)
      in (round64 (cx + round64 (radius * mathCos angleRad)),
          round64 (cy + round64 (radius * mathSin angleRad))))"

section \<open>Binary splits: the audit donut and the pass/fail pie\<close>

text \<open>
  The rows of the \<open>slices\<close> array of both renderers. The fields carry the prefix
  \<open>slice_\<close> because \<open>value\<close>, \<open>angle\<close> and \<open>label\<close> are wanted as variable names.
\<close>

record slice =
  slice_label :: string
  slice_value :: real
  slice_angle :: real
  slice_color :: string
  slice_startAngle :: real

text \<open>
  The drawing loop of both renderers, \<open>slices.forEach\<close> around the mutable
  \<open>currentAngle\<close>: a slice whose value is positive gets a path from \<open>currentAngle\<close> to
  \<open>currentAngle + slice.angle\<close> and advances \<open>currentAngle\<close>; any other slice is skipped.
  The function that builds the path (\<open>createDonutSlice\<close> or \<open>createPieSlice\<close> at the
  chart's centre and radius) is the parameter \<open>mk\<close>.
\<close>

fun drawSlices ::
  "(real \<Rightarrow> real \<Rightarrow> real pathCmd list) \<Rightarrow> real \<Rightarrow> slice list \<Rightarrow> real pathCmd list list" where
  "drawSlices mk currentAngle [] = []"
| "drawSlices mk currentAngle (s # ss) =
     (if 0 < slice_value s
      then mk currentAngle (currentAngle + slice_angle s)
             # drawSlices mk (currentAngle + slice_angle s) ss
      else drawSlices mk currentAngle ss)"

text \<open>
  What a binary-split renderer appends to the \<open>svg\<close> element: the slice paths, the
  number shown in the centre (before \<open>toFixed\<close> formats it) and the position of each
  legend square. \<open>chart_slices\<close> is the \<open>slices\<close> array the paths and the legend are
  made from.
\<close>

record splitChart =
  chart_width :: real
  chart_slices :: "slice list"
  chart_paths :: "real pathCmd list list"
  chart_centerValue :: real
  chart_legend :: "(real \<times> real) list"

text \<open>
  The user-level record of the audit query. A field that is missing or \<open>null\<close> is
  \<open>None\<close>; \<open>field || 0\<close> replaces it, and a zero, by 0.
\<close>

record auditData =
  totalUp :: "real option"
  totalDown :: "real option"
  auditRatio :: "real option"

fun orZero :: "real option \<Rightarrow> real" where
  "orZero None = 0"
| "orZero (Some v) = (if v = 0 then 0 else v)"

definition createAuditRatioGraph ::
  "element option \<Rightarrow> auditData option \<Rightarrow> error + splitChart rendering" where
  "createAuditRatioGraph container auditData =
     (case (container, auditData) of
        (Some c, Some a) \<Rightarrow>
          (let up = orZero (totalUp a);
               down = orZero (totalDown a);
               total = up + down
           in if total = 0 then setPlaceholder container ''No audit data available''
              else
                (let width = clientWidth c;
                     height = 300;
                     centerX = width / 2;
                     centerY = height / 2;
                     radius = min width height / 2 - 40;
                     innerRadius = radius * 0.6;
                     upAngle = (up / total) * 360;
                     downAngle = (down / total) * 360;
                     slices =
                       [\<lparr>slice_label = ''Audits Done'', slice_value = up, slice_angle = upAngle,
                         slice_color = ''#48bb78'', slice_startAngle = 0\<rparr>,
                        \<lparr>slice_label = ''Audits Received'', slice_value = down,
                         slice_angle = downAngle, slice_color = ''#667eea'',
                         slice_startAngle = upAngle\<rparr>];
                     paths = drawSlices (createDonutSlice centerX centerY radius innerRadius)
                               (- 90) slices;
                     ratio = orZero (auditRatio a);
                     legendY = height - 40
                 in Inr (Svg \<lparr>chart_width = width, chart_slices = slices, chart_paths = paths,
                      chart_centerValue = ratio,
                      chart_legend =
                        map (\<lambda>index. (width / 2 - 100 + real index * 120, legendY))
                          [0 ..< length slices]\<rparr>)))
      | _ \<Rightarrow> setPlaceholder container ''No audit data available'')"

text \<open>
  A row of the results query. A grade that is \<open>null\<close> or \<open>undefined\<close> is \<open>None\<close>.
\<close>

record result =
  grade :: "real option"

text \<open>
  The counting loop of \<open>createPassFailGraph\<close>: the state is the pair
  \<open>(passCount, failCount)\<close>.
\<close>

fun countPassFail :: "result list \<Rightarrow> nat \<times> nat \<Rightarrow> nat \<times> nat" where
  "countPassFail [] (passCount, failCount) = (passCount, failCount)"
| "countPassFail (r # rs) (passCount, failCount) =
     (case grade r of
        None \<Rightarrow> countPassFail rs (passCount, failCount)
      | Some g \<Rightarrow>
          if 1 \<le> g then countPassFail rs (passCount + 1, failCount)
          else countPassFail rs (passCount, failCount + 1))"

definition createPassFailGraph ::
  "element option \<Rightarrow> result list option \<Rightarrow> error + splitChart rendering" where
  "createPassFailGraph container results =
     (case (container, results) of
        (Some c, Some (r # rs)) \<Rightarrow>
          (let (passCount, failCount) = countPassFail (r # rs) (0, 0);
               total = passCount + failCount
           in if total = 0 then setPlaceholder container ''No results data available''
              else
                (let width = clientWidth c;
                     height = 300;
                     centerX = width / 2;
                     centerY = height / 2;
                     radius = min width height / 2 - 40;
                     passAngle = (real passCount / real total) * 360;
                     failAngle = (real failCount / real total) * 360;
                     slices =
                       [\<lparr>slice_label = ''Pass'', slice_value = real passCount,
                         slice_angle = passAngle, slice_color = ''#48bb78'',
                         slice_startAngle = 0\<rparr>,
                        \<lparr>slice_label = ''Fail'', slice_value = real failCount,
                         slice_angle = failAngle, slice_color = ''#f56565'',
                         slice_startAngle = passAngle\<rparr>];
                     paths = drawSlices (createPieSlice centerX centerY radius) (- 90) slices;
                     percentage = (real passCount / real total) * 100;
                     legendY = height - 40
                 in Inr (Svg \<lparr>chart_width = width, chart_slices = slices, chart_paths = paths,
                      chart_centerValue = percentage,
                      chart_legend =
                        map (\<lambda>index. (width / 2 - 80 + real index * 100, legendY))
                          [0 ..< length slices]\<rparr>)))
      | _ \<Rightarrow> setPlaceholder container ''No results data available'')"

text \<open>
  The success-rate statistic of the profile page. Its loop counts the graded records
  and, among them, the passed ones: the state is \<open>(passCount, totalCount)\<close>.
  \<open>Math.round\<close> rounds to the nearest integer, a half upwards.
\<close>

definition mathRound :: "real \<Rightarrow> int" where
  "mathRound v = \<lfloor>v + 1 / 2\<rfloor>"

fun countPassTotal :: "result list \<Rightarrow> nat \<times> nat \<Rightarrow> nat \<times> nat" where
  "countPassTotal [] (passCount, totalCount) = (passCount, totalCount)"
| "countPassTotal (r # rs) (passCount, totalCount) =
     (case grade r of
        None \<Rightarrow> countPassTotal rs (passCount, totalCount)
      | Some g \<Rightarrow>
          if 1 \<le> g then countPassTotal rs (passCount + 1, totalCount + 1)
          else countPassTotal rs (passCount, totalCount + 1))"

definition calculateSuccessRate :: "result list option \<Rightarrow> int" where
  "calculateSuccessRate results =
     (case results of
        Some (r # rs) \<Rightarrow>
          (let (passCount, totalCount) = countPassTotal (r # rs) (0, 0)
           in if 0 < totalCount
              then mathRound ((real passCount / real totalCount) * 100)
              else 0)
      | _ \<Rightarrow> 0)"

section \<open>XP transactions\<close>

text \<open>
  A row of the transaction query, in the order the query returns them (ascending
  \<open>createdAt\<close>). \<open>createdAt\<close> is the time value of \<open>new Date(t.createdAt)\<close>;
  \<open>objectName\<close> is \<open>t.object?.name\<close>, \<open>None\<close> when the object or its name is missing.
\<close>

record transaction =
  amount :: real
  createdAt :: int
  objectName :: "string option"

text \<open>\<open>t.object?.name || 'Unknown'\<close>: the empty string is falsy as well.\<close>

definition projectName :: "transaction \<Rightarrow> string" where
  "projectName t =
     (case objectName t of
        None \<Rightarrow> ''Unknown''
      | Some n \<Rightarrow> if n = [] then ''Unknown'' else n)"

text \<open>\<open>transactions.reduce((sum, t) => sum + t.amount, 0)\<close> of the profile page.\<close>

definition calculateTotalXP :: "transaction list \<Rightarrow> real" where
  "calculateTotalXP transactions = foldl (\<lambda>sum t. sum + amount t) 0 transactions"

text \<open>
  \<open>Math.max(...values)\<close>: the maximum of the arguments, \<open>-Infinity\<close> when there is none.
\<close>

fun mathMax :: "real list \<Rightarrow> jsnum" where
  "mathMax [] = NegInf"
| "mathMax (v # vs) = (case mathMax vs of Fin m \<Rightarrow> Fin (max v m) | _ \<Rightarrow> Fin v)"

section \<open>The time series\<close>

record dataPoint =
  dp_date :: int
  dp_xp :: real
  dp_project :: string
  dp_amount :: real

text \<open>
  \<open>transactions.map\<close> around the mutable \<open>cumulativeXP\<close>, which is the first argument.
\<close>

fun dataPointsFrom :: "real \<Rightarrow> transaction list \<Rightarrow> dataPoint list" where
  "dataPointsFrom cumulativeXP [] = []"
| "dataPointsFrom cumulativeXP (t # ts) =
     \<lparr>dp_date = createdAt t, dp_xp = cumulativeXP + amount t,
      dp_project = projectName t, dp_amount = amount t\<rparr>
       # dataPointsFrom (cumulativeXP + amount t) ts"

text \<open>
  The two scales are closures of the source; the variables they capture are the leading
  parameters here. The margins are \<open>top = 20\<close>, \<open>right = 30\<close>, \<open>bottom = 60\<close>,
  \<open>left = 80\<close> and the height is 350. Neither division is guarded.
\<close>

definition xScale :: "int \<Rightarrow> int \<Rightarrow> real \<Rightarrow> int \<Rightarrow> jsnum" where
  "xScale minDate maxDate graphWidth date =
     jsadd (Fin 80)
       (jsmul (jsdiv (Fin (of_int (date - minDate))) (Fin (of_int (maxDate - minDate))))
          (Fin graphWidth))"

definition yScale :: "jsnum \<Rightarrow> real \<Rightarrow> real \<Rightarrow> jsnum" where
  "yScale maxXP graphHeight xp =
     jssub (Fin (350 - 60)) (jsmul (jsdiv (Fin xp) maxXP) (Fin graphHeight))"

text \<open>
  \<open>dataPoints[index].date\<close> in the loop of the date labels: an index that is not a
  position of the array (among them \<open>NaN\<close>) reads \<open>undefined\<close>, and \<open>.date\<close> then throws.
\<close>

fun pointAt :: "dataPoint list \<Rightarrow> jsnum \<Rightarrow> error + dataPoint" where
  "pointAt dataPoints (Fin k) =
     (if 0 \<le> k \<and> k < real (length dataPoints) \<and> k = of_int \<lfloor>k\<rfloor>
      then Inr (dataPoints ! nat \<lfloor>k\<rfloor>)
      else Inl TypeError)"
| "pointAt dataPoints _ = Inl TypeError"

text \<open>
  The loop \<open>for (let i = 0; i < numXLabels; i++)\<close>, over the list of the values of \<open>i\<close>;
  it yields the \<open>x\<close> attribute of each label and stops at the first throw.
\<close>

fun xLabelLoop ::
  "dataPoint list \<Rightarrow> (int \<Rightarrow> jsnum) \<Rightarrow> nat \<Rightarrow> nat list \<Rightarrow> error + jsnum list" where
  "xLabelLoop dataPoints xs numXLabels [] = Inr []"
| "xLabelLoop dataPoints xs numXLabels (i # is) =
     (let index = jsfloor (jsdiv (Fin (real i * (real (length dataPoints) - 1)))
                             (Fin (real numXLabels - 1)))
      in case pointAt dataPoints index of
           Inl e \<Rightarrow> Inl e
         | Inr point \<Rightarrow>
             (case xLabelLoop dataPoints xs numXLabels is of
                Inl e \<Rightarrow> Inl e
              | Inr rest \<Rightarrow> Inr (xs (dp_date point) # rest)))"

text \<open>
  The geometry of the chart: the six grid lines \<open>(x1, y1, x2, y2)\<close>, the six value labels
  \<open>(value, y)\<close>, the \<open>x\<close> of the date labels, the two paths and the centre \<open>(cx, cy)\<close> of
  each marker.
\<close>

record xpChart =
  xp_dataPoints :: "dataPoint list"
  xp_grid :: "(real \<times> real \<times> real \<times> real) list"
  xp_yLabels :: "(jsnum \<times> real) list"
  xp_xLabels :: "jsnum list"
  xp_areaPath :: "jsnum pathCmd list"
  xp_linePath :: "jsnum pathCmd list"
  xp_circles :: "(jsnum \<times> jsnum) list"

definition createXPProgressGraph ::
  "element option \<Rightarrow> transaction list option \<Rightarrow> error + xpChart rendering" where
  "createXPProgressGraph container transactions =
     (case (container, transactions) of
        (Some c, Some (t # ts)) \<Rightarrow>
          (let dataPoints = dataPointsFrom 0 (t # ts);
               width = clientWidth c;
               height = 350;
               graphWidth = width - 80 - 30;
               graphHeight = height - 20 - 60;
               maxXP = mathMax (map dp_xp dataPoints);
               minDate = dp_date (dataPoints ! 0);
               maxDate = dp_date (dataPoints ! (length dataPoints - 1));
               xs = xScale minDate maxDate graphWidth;
               ys = yScale maxXP graphHeight;
               grid = map (\<lambda>i. (80, height - 60 - (real i / 5) * graphHeight,
                                 width - 30, height - 60 - (real i / 5) * graphHeight))
                        [0 ..< 6];
               yLabels = map (\<lambda>i. (jsmul (Fin (real i / 5)) maxXP,
                                    height - 60 - (real i / 5) * graphHeight))
                           [0 ..< 6];
               numXLabels = min 5 (length dataPoints)
           in case xLabelLoop dataPoints xs numXLabels [0 ..< numXLabels] of
                Inl e \<Rightarrow> Inl e
              | Inr xLabels \<Rightarrow>
                  Inr (Svg
                    \<lparr>xp_dataPoints = dataPoints,
                     xp_grid = grid,
                     xp_yLabels = yLabels,
                     xp_xLabels = xLabels,
                     xp_areaPath =
                       MoveTo (Fin 80) (Fin (height - 60))
                         # map (\<lambda>point. LineTo (xs (dp_date point)) (ys (dp_xp point)))
                             dataPoints
                         @ [LineTo (xs (dp_date (dataPoints ! (length dataPoints - 1))))
                              (Fin (height - 60)),
                            ClosePath],
                     xp_linePath =
                       MoveTo (xs (dp_date (dataPoints ! 0))) (ys (dp_xp (dataPoints ! 0)))
                         # map (\<lambda>point. LineTo (xs (dp_date point)) (ys (dp_xp point)))
                             (drop 1 dataPoints),
                     xp_circles =
                       map (\<lambda>point. (xs (dp_date point), ys (dp_xp point))) dataPoints\<rparr>))
      | _ \<Rightarrow> setPlaceholder container ''No XP data available'')"

section \<open>The category totals\<close>

text \<open>
  \<open>projectXP\<close> is an object used as a dictionary from project name to number. Its own
  properties are kept as an association list in the order of their creation: assigning
  to a name that is present replaces the value in place, assigning to a new name appends
  (\<open>AList.update\<close> does both). \<open>projectXP[name] || 0\<close> is \<open>orZero\<close> of the lookup.

  The object literal also inherits the properties of \<open>Object.prototype\<close>. For a project
  called like one of them (\<open>inheritedNames\<close>) the lookup finds a function, the sum turns
  into a string, and the totals are no longer numbers. The association list does not
  model that: the statements about the totals are made for names outside
  \<open>inheritedNames\<close>.
\<close>

definition inheritedNames :: "string list" where
  "inheritedNames =
     [''constructor'', ''hasOwnProperty'', ''isPrototypeOf'', ''propertyIsEnumerable'',
      ''toLocaleString'', ''toString'', ''valueOf'', ''__proto__'', ''__defineGetter__'',
      ''__defineSetter__'', ''__lookupGetter__'', ''__lookupSetter__'']"

fun aggregateXP :: "transaction list \<Rightarrow> (string \<times> real) list \<Rightarrow> (string \<times> real) list" where
  "aggregateXP [] projectXP = projectXP"
| "aggregateXP (t # ts) projectXP =
     aggregateXP ts
       (AList.update (projectName t)
          (orZero (map_of projectXP (projectName t)) + amount t) projectXP)"

text \<open>
  \<open>Object.entries\<close> enumerates the own properties: first the names that are array
  indices (the canonical decimal numerals of the integers below \<open>2^32 - 1\<close>) in
  ascending numeric order, then the other names in the order of their creation.
\<close>

definition digitValue :: "char \<Rightarrow> nat option" where
  "digitValue ch =
     map_of [(CHR ''0'', 0), (CHR ''1'', 1), (CHR ''2'', 2), (CHR ''3'', 3), (CHR ''4'', 4),
             (CHR ''5'', 5), (CHR ''6'', 6), (CHR ''7'', 7), (CHR ''8'', 8), (CHR ''9'', 9)] ch"

definition indexValue :: "string \<Rightarrow> nat" where
  "indexValue name = foldl (\<lambda>n ch. 10 * n + the (digitValue ch)) 0 name"

definition isArrayIndex :: "string \<Rightarrow> bool" where
  "isArrayIndex name \<longleftrightarrow>
     name \<noteq> [] \<and> list_all (\<lambda>ch. digitValue ch \<noteq> None) name
     \<and> (name = ''0'' \<or> hd name \<noteq> CHR ''0'')
     \<and> indexValue name \<le> 4294967294"

definition objectEntries :: "(string \<times> real) list \<Rightarrow> (string \<times> real) list" where
  "objectEntries obj =
     sort_key (\<lambda>entry. indexValue (fst entry)) (filter (\<lambda>entry. isArrayIndex (fst entry)) obj)
       @ filter (\<lambda>entry. \<not> isArrayIndex (fst entry)) obj"

text \<open>
  \<open>.sort((a, b) => b[1] - a[1])\<close>: the comparator orders by descending total, and
  \<open>Array.prototype.sort\<close> is stable. The stable sorted arrangement of a list is unique,
  so any stable sort computes it; here it is \<open>sort_key\<close> on the negated total.
\<close>

definition sortByTotalDesc :: "(string \<times> real) list \<Rightarrow> (string \<times> real) list" where
  "sortByTotalDesc entries = sort_key (\<lambda>entry. - snd entry) entries"

definition getBarColor :: "real \<Rightarrow> jsnum \<Rightarrow> string" where
  "getBarColor v maxValue =
     (let ratio = jsdiv (Fin v) maxValue
      in if jsgt ratio (Fin 0.7) then ''#48bb78''
         else if jsgt ratio (Fin 0.4) then ''#667eea''
         else if jsgt ratio (Fin 0.2) then ''#ed8936''
         else ''#f56565'')"

record bar =
  bar_name :: string
  bar_xp :: real
  bar_x :: real
  bar_width :: real
  bar_height :: jsnum
  bar_y :: jsnum
  bar_fill :: string

text \<open>
  The chart: \<open>sortedProjects\<close>, the groups on display, and one bar for each (with the
  height and \<open>y\<close> it has once its animation timer has fired).
\<close>

record barChart =
  bc_sortedProjects :: "(string \<times> real) list"
  bc_bars :: "bar list"

definition createXPByProjectGraph ::
  "element option \<Rightarrow> transaction list option \<Rightarrow> error + barChart rendering" where
  "createXPByProjectGraph container transactions =
     (case (container, transactions) of
        (Some c, Some (t # ts)) \<Rightarrow>
          (let projectXP = aggregateXP (t # ts) [];
               sortedProjects = take 15 (sortByTotalDesc (objectEntries projectXP))
           in if length sortedProjects = 0
              then setPlaceholder container ''No project data available''
              else
                (let width = clientWidth c;
                     height = 350;
                     graphWidth = width - 80 - 30;
                     graphHeight = height - 20 - 120;
                     maxXP = mathMax (map snd sortedProjects);
                     barWidth = graphWidth / real (length sortedProjects) - 10
                 in Inr (Svg
                      \<lparr>bc_sortedProjects = sortedProjects,
                       bc_bars =
                         map (\<lambda>(index, name, xp).
                                (let x = 80 + real index * (graphWidth / real (length sortedProjects)) + 5;
                                     barHeight = jsmul (jsdiv (Fin xp) maxXP) (Fin graphHeight);
                                     y = jssub (Fin (height - 120)) barHeight
                                 in \<lparr>bar_name = name, bar_xp = xp, bar_x = x,
                                     bar_width = barWidth, bar_height = barHeight, bar_y = y,
                                     bar_fill = getBarColor xp maxXP\<rparr>))
                           (enumerate 0 sortedProjects)\<rparr>)))
      | _ \<Rightarrow> setPlaceholder container ''No project data available'')"

text \<open>
  The order of first insertion, as the specification words it: every name at the place
  of its first occurrence in the record list.
\<close>

fun firstOccurrences :: "'a list \<Rightarrow> 'a list" where
  "firstOccurrences [] = []"
| "firstOccurrences (v # vs) = v # firstOccurrences (removeAll v vs)"

section \<open>Reading a rendering\<close>

text \<open>
  What the statements below read off the result of a render call; a result that is not a
  chart has no slices, paths, groups, markers or data points. \<open>graded\<close>, \<open>passed\<close> and
  \<open>failed\<close> sort the result records by their grade.
\<close>

fun isPlaceholder :: "error + 'chart rendering \<Rightarrow> bool" where
  "isPlaceholder (Inr (Placeholder msg)) = True"
| "isPlaceholder _ = False"

fun sliceAngles :: "error + splitChart rendering \<Rightarrow> real list" where
  "sliceAngles (Inr (Svg chart)) = map slice_angle (chart_slices chart)"
| "sliceAngles _ = []"

fun sliceValues :: "error + splitChart rendering \<Rightarrow> real list" where
  "sliceValues (Inr (Svg chart)) = map slice_value (chart_slices chart)"
| "sliceValues _ = []"

fun slicePaths :: "error + splitChart rendering \<Rightarrow> real pathCmd list list" where
  "slicePaths (Inr (Svg chart)) = chart_paths chart"
| "slicePaths _ = []"

text \<open>
  \<open>Object.entries(projectXP)\<close> after the aggregation loop: all the groups with their
  totals, in the order the sort receives them.
\<close>

definition groupTotals :: "transaction list \<Rightarrow> (string \<times> real) list" where
  "groupTotals transactions = objectEntries (aggregateXP transactions [])"

fun displayedOf :: "error + barChart rendering \<Rightarrow> (string \<times> real) list" where
  "displayedOf (Inr (Svg chart)) = bc_sortedProjects chart"
| "displayedOf _ = []"

fun circlesOf :: "error + xpChart rendering \<Rightarrow> (jsnum \<times> jsnum) list" where
  "circlesOf (Inr (Svg chart)) = xp_circles chart"
| "circlesOf _ = []"

fun dataPointsOf :: "error + xpChart rendering \<Rightarrow> dataPoint list" where
  "dataPointsOf (Inr (Svg chart)) = xp_dataPoints chart"
| "dataPointsOf _ = []"

fun isChart :: "error + 'chart rendering \<Rightarrow> bool" where
  "isChart (Inr (Svg chart)) = True"
| "isChart _ = False"

fun graded :: "result \<Rightarrow> bool" where
  "graded r = (grade r \<noteq> None)"

fun passed :: "result \<Rightarrow> bool" where
  "passed r = (case grade r of None \<Rightarrow> False | Some g \<Rightarrow> 1 \<le> g)"

fun failed :: "result \<Rightarrow> bool" where
  "failed r = (case grade r of None \<Rightarrow> False | Some g \<Rightarrow> \<not> 1 \<le> g)"

section \<open>Properties of the shared geometry\<close>

text \<open>
  C7. In the path of every pie slice and of every donut slice, the large-arc flag is
  \<open>'1'\<close> exactly when the angular span \<open>endAngle - startAngle\<close> is strictly greater than
  180 degrees, and \<open>'0'\<close> when the span is at most 180 degrees. The donut slice has two
  arcs, the outer and the inner one, and both carry that flag.
\<close>

theorem largeArc_flag_exceeds_180:
  "largeArcFlags (createPieSlice cx cy radius startAngle endAngle)
     = [if 180 < endAngle - startAngle then ''1'' else ''0'']
   \<and> largeArcFlags (createDonutSlice cx cy radius innerRadius startAngle endAngle)
     = [if 180 < endAngle - startAngle then ''1'' else ''0'',
        if 180 < endAngle - startAngle then ''1'' else ''0'']"
  by (simp add: createPieSlice_def createDonutSlice_def Let_def)

section \<open>The four entry points\<close>

text \<open>
  C9. At each of the four render entry points, when the element lookup returns \<open>null\<close>
  the call throws a \<open>TypeError\<close> (the assignment to \<open>innerHTML\<close> of \<open>null\<close>), whatever
  the data; it neither returns silently nor renders a placeholder. Hence a call that
  has rendered a placeholder had an existing container.
\<close>

theorem missing_container_throws:
  "createXPProgressGraph None transactions = Inl TypeError
   \<and> createXPByProjectGraph None transactions = Inl TypeError
   \<and> createAuditRatioGraph None auditData = Inl TypeError
   \<and> createPassFailGraph None results = Inl TypeError
   \<and> (isPlaceholder (createXPProgressGraph container transactions) \<longrightarrow> container \<noteq> None)
   \<and> (isPlaceholder (createXPByProjectGraph container transactions) \<longrightarrow> container \<noteq> None)
   \<and> (isPlaceholder (createAuditRatioGraph container auditData) \<longrightarrow> container \<noteq> None)
   \<and> (isPlaceholder (createPassFailGraph container results) \<longrightarrow> container \<noteq> None)"
proof -
  have a: "createXPProgressGraph None ts = Inl TypeError" for ts
    by (simp add: createXPProgressGraph_def)
  have b: "createXPByProjectGraph None ts = Inl TypeError" for ts
    by (simp add: createXPByProjectGraph_def)
  have c: "createAuditRatioGraph None ad = Inl TypeError" for ad
    by (simp add: createAuditRatioGraph_def)
  have d: "createPassFailGraph None rs = Inl TypeError" for rs
    by (simp add: createPassFailGraph_def)
  show ?thesis
    by (cases container) (simp_all add: a b c d)
qed

theorem missing_container_throws_witness:
  "isPlaceholder (createXPProgressGraph (Some (Element 800)) None)
   \<and> isPlaceholder (createXPByProjectGraph (Some (Element 800)) None)
   \<and> isPlaceholder (createAuditRatioGraph (Some (Element 800)) None)
   \<and> isPlaceholder (createPassFailGraph (Some (Element 800)) None)
   \<and> Some (Element 800) \<noteq> None
   \<and> createXPProgressGraph None None = Inl TypeError"
  using missing_container_throws [of None None None "Some (Element 800)"]
  by (simp add: createXPProgressGraph_def createXPByProjectGraph_def
      createAuditRatioGraph_def createPassFailGraph_def)

section \<open>Properties of the binary splits\<close>

text \<open>
  C5. In an existing container, a binary split whose two values sum to zero renders the
  empty-state placeholder: the donut when \<open>totalUp || 0\<close> and \<open>totalDown || 0\<close> sum to
  zero, the pie when \<open>passCount + failCount\<close> is zero. The result is the placeholder, a
  returned value and not a throw; the angles, which divide by the total, are not part of
  it.
\<close>

theorem zero_total_placeholder:
  "(orZero (totalUp a) + orZero (totalDown a) = 0 \<longrightarrow>
      createAuditRatioGraph (Some c) (Some a) = Inr (Placeholder ''No audit data available''))
   \<and> (fst (countPassFail rs (0, 0)) + snd (countPassFail rs (0, 0)) = 0 \<longrightarrow>
      createPassFailGraph (Some c) (Some rs) = Inr (Placeholder ''No results data available''))"
  by (cases rs) (auto simp: createAuditRatioGraph_def createPassFailGraph_def Let_def
      split: prod.splits)


theorem zero_total_placeholder_witness:
  "orZero (totalUp \<lparr>totalUp = Some 0, totalDown = None, auditRatio = None\<rparr>)
     + orZero (totalDown \<lparr>totalUp = Some 0, totalDown = None, auditRatio = None\<rparr>) = 0
   \<and> fst (countPassFail [\<lparr>grade = None\<rparr>] (0, 0)) + snd (countPassFail [\<lparr>grade = None\<rparr>] (0, 0)) = 0
   \<and> createAuditRatioGraph (Some (Element 600))
        (Some \<lparr>totalUp = Some 0, totalDown = None, auditRatio = None\<rparr>)
       = Inr (Placeholder ''No audit data available'')
   \<and> createPassFailGraph (Some (Element 600)) (Some [\<lparr>grade = None\<rparr>])
       = Inr (Placeholder ''No results data available'')"
  using zero_total_placeholder [of "\<lparr>totalUp = Some 0, totalDown = None, auditRatio = None\<rparr>"
      "Element 600" "[\<lparr>grade = None\<rparr>]"]
  by simp

lemma countPassFail_acc:
  "countPassFail rs (p, f) = (p + length (filter passed rs), f + length (filter failed rs))"
  by (induction rs arbitrary: p f) (auto split: option.splits)

lemma countPassTotal_acc:
  "countPassTotal rs (p, n) = (p + length (filter passed rs), n + length (filter graded rs))"
  by (induction rs arbitrary: p n) (auto split: option.splits)

lemma passed_failed_graded:
  "length (filter passed rs) + length (filter failed rs) = length (filter graded rs)"
  by (induction rs) (auto split: option.splits)

lemma ungraded_counts:
  "\<forall>r \<in> set rs. grade r = None \<Longrightarrow>
     filter passed rs = [] \<and> filter failed rs = [] \<and> filter graded rs = []"
  by (induction rs) auto

lemma createPassFailGraph_values:
  assumes "countPassFail rs (0, 0) = (p, f)" and "0 < p + f"
  shows "sliceValues (createPassFailGraph (Some c) (Some rs)) = [real p, real f]"
proof (cases rs)
  case Nil
  with assms show ?thesis by simp
next
  case (Cons r rs')
  with assms show ?thesis
    by (simp add: createPassFailGraph_def Let_def)
qed

lemma createPassFailGraph_no_grades:
  assumes "countPassFail rs (0, 0) = (0, 0)"
  shows "createPassFailGraph (Some c) (Some rs) = Inr (Placeholder ''No results data available'')"
proof (cases rs)
  case Nil
  then show ?thesis by (simp add: createPassFailGraph_def)
next
  case (Cons r rs')
  with assms show ?thesis
    by (simp add: createPassFailGraph_def Let_def)
qed

lemma calculateSuccessRate_counts:
  assumes "countPassTotal rs (0, 0) = (p, n)"
  shows "calculateSuccessRate (Some rs)
           = (if 0 < n then mathRound (real p / real n * 100) else 0)"
proof (cases rs)
  case Nil
  with assms show ?thesis by (simp add: calculateSuccessRate_def)
next
  case (Cons r rs')
  with assms show ?thesis
    by (simp add: calculateSuccessRate_def Let_def)
qed

text \<open>
  C6. For the values (3, 1) the two computed arc spans are exactly 270 and 90 degrees
  (which sum to 360 and stand in ratio 3:1), in the donut and in the pie. In general,
  when the total is not zero, each span is the value's share of the total times 360.
\<close>

theorem split_angles_proportional:
  "sliceAngles (createAuditRatioGraph (Some c)
       (Some \<lparr>totalUp = Some 3, totalDown = Some 1, auditRatio = ratio\<rparr>)) = [270, 90]
   \<and> (countPassFail rs (0, 0) = (3, 1) \<longrightarrow>
        sliceAngles (createPassFailGraph (Some c) (Some rs)) = [270, 90])
   \<and> (orZero (totalUp a) + orZero (totalDown a) \<noteq> 0 \<longrightarrow>
        sliceAngles (createAuditRatioGraph (Some c) (Some a))
          = [orZero (totalUp a) / (orZero (totalUp a) + orZero (totalDown a)) * 360,
             orZero (totalDown a) / (orZero (totalUp a) + orZero (totalDown a)) * 360])
   \<and> (countPassFail rs (0, 0) = (p, f) \<and> 0 < p + f \<longrightarrow>
        sliceAngles (createPassFailGraph (Some c) (Some rs))
          = [real p / real (p + f) * 360, real f / real (p + f) * 360])"
proof -
  have pie: "sliceAngles (createPassFailGraph (Some c) (Some rs))
          = [real p / real (p + f) * 360, real f / real (p + f) * 360]"
    if "countPassFail rs (0, 0) = (p, f)" "0 < p + f" for p f
  proof (cases rs)
    case Nil
    with that show ?thesis by simp
  next
    case (Cons r rs')
    with that show ?thesis
      by (simp add: createPassFailGraph_def Let_def)
  qed
  have donut: "sliceAngles (createAuditRatioGraph (Some c) (Some a))
          = [orZero (totalUp a) / (orZero (totalUp a) + orZero (totalDown a)) * 360,
             orZero (totalDown a) / (orZero (totalUp a) + orZero (totalDown a)) * 360]"
    if "orZero (totalUp a) + orZero (totalDown a) \<noteq> 0" for a
    using that by (simp add: createAuditRatioGraph_def Let_def)
  have "sliceAngles (createAuditRatioGraph (Some c)
       (Some \<lparr>totalUp = Some 3, totalDown = Some 1, auditRatio = ratio\<rparr>)) = [270, 90]"
    by (simp add: donut)
  moreover have "sliceAngles (createPassFailGraph (Some c) (Some rs)) = [270, 90]"
    if "countPassFail rs (0, 0) = (3, 1)"
    using pie [OF that] by simp
  ultimately show ?thesis
    using pie donut by blast
qed

theorem split_angles_proportional_witness:
  "countPassFail [\<lparr>grade = Some 1\<rparr>, \<lparr>grade = Some 0\<rparr>, \<lparr>grade = Some 2\<rparr>, \<lparr>grade = Some 1\<rparr>] (0, 0)
     = (3, 1)
   \<and> (0::nat) < 3 + 1
   \<and> orZero (totalUp \<lparr>totalUp = Some 3, totalDown = Some 1, auditRatio = None\<rparr>)
       + orZero (totalDown \<lparr>totalUp = Some 3, totalDown = Some 1, auditRatio = None\<rparr>) \<noteq> 0
   \<and> sliceAngles (createPassFailGraph (Some (Element 600))
        (Some [\<lparr>grade = Some 1\<rparr>, \<lparr>grade = Some 0\<rparr>, \<lparr>grade = Some 2\<rparr>, \<lparr>grade = Some 1\<rparr>]))
       = [270, 90]
   \<and> sliceAngles (createAuditRatioGraph (Some (Element 600))
        (Some \<lparr>totalUp = Some 3, totalDown = Some 1, auditRatio = None\<rparr>)) = [270, 90]"
  using split_angles_proportional [of "Element 600" None
      "[\<lparr>grade = Some 1\<rparr>, \<lparr>grade = Some 0\<rparr>, \<lparr>grade = Some 2\<rparr>, \<lparr>grade = Some 1\<rparr>]"
      "\<lparr>totalUp = Some 3, totalDown = Some 1, auditRatio = None\<rparr>" 3 1]
  by simp

text \<open>
  C10. The counting loops of the pass/fail pie and of the success-rate statistic skip the
  records whose grade is \<open>null\<close> or \<open>undefined\<close>: the pass count is the number of records
  with a grade of at least 1, the fail count the number of records with a grade below 1,
  and the two sum to the number of graded records. When there is a graded record these
  counts are the values of the two pie slices, and the success rate is the rounded
  percentage of passes among the graded records. A non-empty list without any grade
  renders the empty-state placeholder, and its success rate is 0.
\<close>

theorem ungraded_results_excluded:
  "countPassFail rs (0, 0) = (length (filter passed rs), length (filter failed rs))
   \<and> countPassTotal rs (0, 0) = (length (filter passed rs), length (filter graded rs))
   \<and> length (filter passed rs) + length (filter failed rs) = length (filter graded rs)
   \<and> (0 < length (filter graded rs) \<longrightarrow>
        sliceValues (createPassFailGraph (Some c) (Some rs))
          = [real (length (filter passed rs)), real (length (filter failed rs))]
        \<and> calculateSuccessRate (Some rs)
          = mathRound (real (length (filter passed rs)) / real (length (filter graded rs)) * 100))
   \<and> (rs \<noteq> [] \<and> (\<forall>r \<in> set rs. grade r = None) \<longrightarrow>
        createPassFailGraph (Some c) (Some rs) = Inr (Placeholder ''No results data available'')
        \<and> calculateSuccessRate (Some rs) = 0)"
proof -
  have pf: "countPassFail rs (0, 0) = (length (filter passed rs), length (filter failed rs))"
    by (simp add: countPassFail_acc)
  have pt: "countPassTotal rs (0, 0) = (length (filter passed rs), length (filter graded rs))"
    by (simp add: countPassTotal_acc)
  note sum = passed_failed_graded [of rs]
  have some: "sliceValues (createPassFailGraph (Some c) (Some rs))
          = [real (length (filter passed rs)), real (length (filter failed rs))]
        \<and> calculateSuccessRate (Some rs)
          = mathRound (real (length (filter passed rs)) / real (length (filter graded rs)) * 100)"
    if "0 < length (filter graded rs)"
  proof -
    from that sum have "0 < length (filter passed rs) + length (filter failed rs)"
      by simp
    from createPassFailGraph_values [OF pf this] calculateSuccessRate_counts [OF pt] that
    show ?thesis by simp
  qed
  have none: "createPassFailGraph (Some c) (Some rs) = Inr (Placeholder ''No results data available'')
        \<and> calculateSuccessRate (Some rs) = 0"
    if "\<forall>r \<in> set rs. grade r = None"
  proof -
    from ungraded_counts [OF that] pf pt
    have "countPassFail rs (0, 0) = (0, 0)" and "countPassTotal rs (0, 0) = (0, 0)"
      by simp_all
    from createPassFailGraph_no_grades [OF this(1)] calculateSuccessRate_counts [OF this(2)]
    show ?thesis by simp
  qed
  from pf pt sum some none show ?thesis by blast
qed

theorem ungraded_results_excluded_witness:
  "0 < length (filter graded [\<lparr>grade = Some 1\<rparr>, \<lparr>grade = None\<rparr>, \<lparr>grade = Some 0\<rparr>])
   \<and> [\<lparr>grade = None\<rparr>] \<noteq> [] \<and> list_all (\<lambda>r. grade r = None) [\<lparr>grade = None::real option\<rparr>]
   \<and> sliceValues (createPassFailGraph (Some (Element 600))
        (Some [\<lparr>grade = Some 1\<rparr>, \<lparr>grade = None\<rparr>, \<lparr>grade = Some 0\<rparr>])) = [1, 1]
   \<and> calculateSuccessRate (Some [\<lparr>grade = Some 1\<rparr>, \<lparr>grade = None\<rparr>, \<lparr>grade = Some 0\<rparr>]) = 50
   \<and> createPassFailGraph (Some (Element 600)) (Some [\<lparr>grade = None\<rparr>])
       = Inr (Placeholder ''No results data available'')
   \<and> calculateSuccessRate (Some [\<lparr>grade = None\<rparr>]) = 0"
  using ungraded_results_excluded [of "[\<lparr>grade = Some 1\<rparr>, \<lparr>grade = None\<rparr>, \<lparr>grade = Some 0\<rparr>]" "Element 600"]
    ungraded_results_excluded [of "[\<lparr>grade = None\<rparr>]" "Element 600"]
  by (simp add: mathRound_def)

text \<open>
  C2. The claim is that the first slice's arc begins at the 12-o'clock position. The code
  starts \<open>currentAngle\<close> at \<open>-90\<close>, and \<open>polarToCartesian\<close> subtracts another 90
  degrees: the angle \<open>-90\<close> is the left-most point \<open>(cx - radius, cy)\<close> of the circle. For
  the values (3, 1) in a container 600 wide (centre (300, 150), radius 110) the arc of
  the first slice runs between the left-most point (190, 150) and the bottom point
  (300, 260) in the donut and in the pie; the top-most point (300, 40) is on neither
  path. The slices do follow one another in the clockwise direction.
\<close>

theorem first_arc_starts_at_nine_oclock:
  "polarToCartesian cx cy radius (- 90) = (cx - radius, cy)
   \<and> slicePaths (createAuditRatioGraph (Some (Element 600))
        (Some \<lparr>totalUp = Some 3, totalDown = Some 1, auditRatio = Some 3\<rparr>))
       = [[MoveTo 300 260, ArcTo 110 110 0 ''1'' 0 190 150,
           LineTo 234 150, ArcTo 66 66 0 ''1'' 1 300 216, ClosePath],
          [MoveTo 190 150, ArcTo 110 110 0 ''0'' 0 300 260,
           LineTo 300 216, ArcTo 66 66 0 ''0'' 1 234 150, ClosePath]]
   \<and> slicePaths (createPassFailGraph (Some (Element 600))
        (Some [\<lparr>grade = Some 1\<rparr>, \<lparr>grade = Some 1\<rparr>, \<lparr>grade = Some 1\<rparr>, \<lparr>grade = Some 0\<rparr>]))
       = [[MoveTo 300 150, LineTo 300 260, ArcTo 110 110 0 ''1'' 0 190 150, ClosePath],
          [MoveTo 300 150, LineTo 190 150, ArcTo 110 110 0 ''0'' 0 300 260, ClosePath]]
   \<and> polarToCartesian 300 150 110 0 = (300, 40)"
proof -
  have left: "polarToCartesian cx cy radius (- 90) = (cx - radius, cy)" for cx cy radius
    by (simp add: polarToCartesian_def Let_def)
  have bottom: "polarToCartesian cx cy radius 180 = (cx, cy + radius)" for cx cy radius
    by (simp add: polarToCartesian_def Let_def)
  have left': "polarToCartesian cx cy radius 270 = (cx - radius, cy)" for cx cy radius
    by (simp add: polarToCartesian_def Let_def)
  have top: "polarToCartesian cx cy radius 0 = (cx, cy - radius)" for cx cy radius
    by (simp add: polarToCartesian_def Let_def)
  have donut: "slicePaths (createAuditRatioGraph (Some (Element 600))
        (Some \<lparr>totalUp = Some 3, totalDown = Some 1, auditRatio = Some 3\<rparr>))
       = [[MoveTo 300 260, ArcTo 110 110 0 ''1'' 0 190 150,
           LineTo 234 150, ArcTo 66 66 0 ''1'' 1 300 216, ClosePath],
          [MoveTo 190 150, ArcTo 110 110 0 ''0'' 0 300 260,
           LineTo 300 216, ArcTo 66 66 0 ''0'' 1 234 150, ClosePath]]"
    by (simp add: createAuditRatioGraph_def Let_def createDonutSlice_def left bottom left')
  have pie: "slicePaths (createPassFailGraph (Some (Element 600))
        (Some [\<lparr>grade = Some 1\<rparr>, \<lparr>grade = Some 1\<rparr>, \<lparr>grade = Some 1\<rparr>, \<lparr>grade = Some 0\<rparr>]))
       = [[MoveTo 300 150, LineTo 300 260, ArcTo 110 110 0 ''1'' 0 190 150, ClosePath],
          [MoveTo 300 150, LineTo 190 150, ArcTo 110 110 0 ''0'' 0 300 260, ClosePath]]"
    by (simp add: createPassFailGraph_def Let_def createPieSlice_def left bottom left')
  from left donut pie top [of 300 150 110] show ?thesis by simp
qed

section \<open>Properties of the time series\<close>

lemma dataPointsFrom_lower:
  "\<forall>t \<in> set ts. 0 \<le> amount t \<Longrightarrow> \<forall>p \<in> set (dataPointsFrom c ts). c \<le> dp_xp p"
proof (induction ts arbitrary: c)
  case Nil
  then show ?case by simp
next
  case (Cons t ts)
  from Cons.prems have "\<forall>p \<in> set (dataPointsFrom (c + amount t) ts). c + amount t \<le> dp_xp p"
    by (intro Cons.IH) simp
  with Cons.prems show ?case by fastforce
qed

lemma dataPointsFrom_sorted:
  "\<forall>t \<in> set ts. 0 \<le> amount t \<Longrightarrow> sorted (map dp_xp (dataPointsFrom c ts))"
proof (induction ts arbitrary: c)
  case Nil
  then show ?case by simp
next
  case (Cons t ts)
  then have "\<forall>t \<in> set ts. 0 \<le> amount t" by simp
  from dataPointsFrom_lower [OF this, of "c + amount t"] Cons.IH [OF this, of "c + amount t"]
  show ?case by simp
qed

lemma dataPointsFrom_last:
  "ts \<noteq> [] \<Longrightarrow> dp_xp (last (dataPointsFrom c ts)) = foldl (\<lambda>sum t. sum + amount t) c ts"
proof (induction ts arbitrary: c)
  case Nil
  then show ?case by simp
next
  case (Cons t ts)
  show ?case
  proof (cases ts)
    case Nil
    then show ?thesis by simp
  next
    case (Cons t' ts')
    then have "dataPointsFrom (c + amount t) ts \<noteq> []" by simp
    with Cons.IH [of "c + amount t"] Cons show ?thesis by simp
  qed
qed

lemma dataPointsOf_createXPProgressGraph:
  "isChart (createXPProgressGraph container (Some ts)) \<Longrightarrow>
     dataPointsOf (createXPProgressGraph container (Some ts)) = dataPointsFrom 0 ts"
  by (cases container; cases ts)
    (auto simp: createXPProgressGraph_def Let_def split: sum.splits)

text \<open>
  C4. For every non-empty record list, the cumulative series that the renderer computes
  by prefix-summing the amounts is non-decreasing when all amounts are non-negative, and
  its last value is the sum of all amounts as \<open>calculateTotalXP\<close> reports it. When the
  renderer draws a chart, that series is the one the chart is drawn from.
\<close>

theorem cumulative_series_monotone_total:
  assumes "transactions \<noteq> []"
  shows "((\<forall>t \<in> set transactions. 0 \<le> amount t) \<longrightarrow>
            sorted (map dp_xp (dataPointsFrom 0 transactions)))
         \<and> dp_xp (last (dataPointsFrom 0 transactions)) = calculateTotalXP transactions
         \<and> (isChart (createXPProgressGraph container (Some transactions)) \<longrightarrow>
              dataPointsOf (createXPProgressGraph container (Some transactions))
                = dataPointsFrom 0 transactions)"
  using assms dataPointsFrom_sorted [of transactions 0] dataPointsFrom_last [of transactions 0]
    dataPointsOf_createXPProgressGraph [of container transactions]
  by (simp add: calculateTotalXP_def)

theorem cumulative_series_monotone_total_witness:
  "[\<lparr>amount = 10, createdAt = 5, objectName = None\<rparr>,
    \<lparr>amount = 20, createdAt = 7, objectName = Some ''a''\<rparr>] \<noteq> []
   \<and> list_all (\<lambda>t. 0 \<le> amount t)
        [\<lparr>amount = 10, createdAt = 5, objectName = None\<rparr>,
         \<lparr>amount = 20, createdAt = 7, objectName = Some ''a''\<rparr>]
   \<and> isChart (createXPProgressGraph (Some (Element 800))
        (Some [\<lparr>amount = 10, createdAt = 5, objectName = None\<rparr>,
               \<lparr>amount = 20, createdAt = 7, objectName = Some ''a''\<rparr>]))
   \<and> map dp_xp (dataPointsOf (createXPProgressGraph (Some (Element 800))
        (Some [\<lparr>amount = 10, createdAt = 5, objectName = None\<rparr>,
               \<lparr>amount = 20, createdAt = 7, objectName = Some ''a''\<rparr>]))) = [10, 30]
   \<and> sorted (map dp_xp (dataPointsFrom 0
        [\<lparr>amount = 10, createdAt = 5, objectName = None\<rparr>,
         \<lparr>amount = 20, createdAt = 7, objectName = Some ''a''\<rparr>]))
   \<and> calculateTotalXP [\<lparr>amount = 10, createdAt = 5, objectName = None\<rparr>,
                       \<lparr>amount = 20, createdAt = 7, objectName = Some ''a''\<rparr>] = 30"
  using cumulative_series_monotone_total
    [of "[\<lparr>amount = 10, createdAt = 5, objectName = None\<rparr>,
          \<lparr>amount = 20, createdAt = 7, objectName = Some ''a''\<rparr>]" "Some (Element 800)"]
  by (simp add: createXPProgressGraph_def Let_def numeral_2_eq_2 calculateTotalXP_def)

text \<open>
  C1. The claim is that no \<open>NaN\<close> or infinite coordinate reaches a drawing primitive. The
  code at the inputs the claim names: a dataset of a single point makes the call throw
  (the index of its date label is \<open>floor(0 * 0 / 0)\<close>); when the minimum and maximum
  timestamps are equal the horizontal scale is never finite; when the maximum cumulative
  value is zero the vertical scale is never finite and no placeholder is rendered. With
  two points of one timestamp the markers get \<open>cx = NaN\<close>, with two points of amount zero
  they get \<open>cy = NaN\<close>.
\<close>

theorem time_series_divisions_unguarded:
  "createXPProgressGraph (Some c) (Some [t]) = Inl TypeError
   \<and> \<not> isFinite (xScale minDate minDate graphWidth date)
   \<and> \<not> isFinite (yScale (Fin 0) graphHeight xp)
   \<and> circlesOf (createXPProgressGraph (Some (Element 800))
        (Some [\<lparr>amount = 100, createdAt = 5, objectName = None\<rparr>,
               \<lparr>amount = 50, createdAt = 5, objectName = None\<rparr>]))
       = [(NaN, Fin 110), (NaN, Fin 20)]
   \<and> circlesOf (createXPProgressGraph (Some (Element 800))
        (Some [\<lparr>amount = 0, createdAt = 5, objectName = None\<rparr>,
               \<lparr>amount = 0, createdAt = 7, objectName = None\<rparr>]))
       = [(Fin 80, NaN), (Fin 770, NaN)]"
proof -
  have single: "createXPProgressGraph (Some c) (Some [t]) = Inl TypeError"
    by (simp add: createXPProgressGraph_def Let_def)
  have xs: "\<not> isFinite (xScale minDate minDate graphWidth date)"
    by (cases "date = minDate"; cases "graphWidth = 0"; cases "0 < graphWidth";
        cases "date < minDate") (simp_all add: xScale_def)
  have ys: "\<not> isFinite (yScale (Fin 0) graphHeight xp)"
    by (cases "xp = 0"; cases "graphHeight = 0"; cases "0 < graphHeight"; cases "0 < xp")
      (simp_all add: yScale_def jssub_def)
  have same: "circlesOf (createXPProgressGraph (Some (Element 800))
        (Some [\<lparr>amount = 100, createdAt = 5, objectName = None\<rparr>,
               \<lparr>amount = 50, createdAt = 5, objectName = None\<rparr>]))
       = [(NaN, Fin 110), (NaN, Fin 20)]"
    by (simp add: createXPProgressGraph_def Let_def numeral_2_eq_2 xScale_def yScale_def
        jssub_def)
  have zero: "circlesOf (createXPProgressGraph (Some (Element 800))
        (Some [\<lparr>amount = 0, createdAt = 5, objectName = None\<rparr>,
               \<lparr>amount = 0, createdAt = 7, objectName = None\<rparr>]))
       = [(Fin 80, NaN), (Fin 770, NaN)]"
    by (simp add: createXPProgressGraph_def Let_def numeral_2_eq_2 xScale_def yScale_def
        jssub_def)
  from single xs ys same zero show ?thesis by blast
qed

section \<open>Properties of the category totals\<close>

lemma firstOccurrences_removeAll:
  "firstOccurrences (removeAll a vs) = removeAll a (firstOccurrences vs)"
proof (induction vs rule: firstOccurrences.induct)
  case 1
  then show ?case by simp
next
  case (2 v vs)
  show ?case
  proof (cases "v = a")
    case True
    with "2.IH" show ?thesis by simp
  next
    case False
    with "2.IH" show ?thesis by (simp add: removeAll_commute [of v a])
  qed
qed

lemma set_firstOccurrences: "set (firstOccurrences vs) = set vs"
  by (induction vs rule: firstOccurrences.induct) auto

lemma aggregateXP_keys:
  "map fst (aggregateXP ts obj)
     = map fst obj @ filter (\<lambda>n. n \<notin> set (map fst obj)) (firstOccurrences (map projectName ts))"
proof (induction ts arbitrary: obj)
  case Nil
  then show ?case by simp
next
  case (Cons t ts)
  let ?n = "projectName t"
  let ?obj = "AList.update ?n (orZero (map_of obj ?n) + amount t) obj"
  have step: "map fst (aggregateXP (t # ts) obj)
      = map fst ?obj @ filter (\<lambda>n. n \<notin> set (map fst ?obj)) (firstOccurrences (map projectName ts))"
    using Cons.IH [of ?obj] by simp
  show ?case
  proof (cases "?n \<in> set (map fst obj)")
    case True
    then have keys: "map fst ?obj = map fst obj" by (simp add: update_keys)
    have "filter (\<lambda>n. n \<notin> set (map fst obj)) (removeAll ?n (firstOccurrences (map projectName ts)))
        = filter (\<lambda>n. n \<notin> set (map fst obj)) (firstOccurrences (map projectName ts))"
      using True by (simp add: removeAll_filter_not_eq conj_commute cong: conj_cong) 
        (metis (mono_tags, lifting) filter_cong)
    with True show ?thesis
      unfolding step keys by (simp add: firstOccurrences_removeAll)
  next
    case False
    then have keys: "map fst ?obj = map fst obj @ [?n]" by (simp add: update_keys)
    have "filter (\<lambda>n. n \<notin> set (map fst obj @ [?n])) (firstOccurrences (map projectName ts))
        = filter (\<lambda>n. n \<notin> set (map fst obj)) (removeAll ?n (firstOccurrences (map projectName ts)))"
      by (auto simp: removeAll_filter_not_eq intro: filter_cong)
    with False show ?thesis
      unfolding step keys by (simp add: firstOccurrences_removeAll)
  qed
qed

lemma objectEntries_no_index:
  assumes "\<forall>entry \<in> set obj. \<not> isArrayIndex (fst entry)"
  shows "objectEntries obj = obj"
proof -
  from assms have "filter (\<lambda>entry. isArrayIndex (fst entry)) obj = []"
    and "filter (\<lambda>entry. \<not> isArrayIndex (fst entry)) obj = obj"
    by (simp_all add: filter_empty_conv filter_id_conv)
  then show ?thesis by (simp add: objectEntries_def)
qed

lemma groupTotals_insertion_order:
  assumes "\<forall>t \<in> set ts. \<not> isArrayIndex (projectName t)"
  shows "map fst (groupTotals ts) = firstOccurrences (map projectName ts)"
proof -
  have keys: "map fst (aggregateXP ts []) = firstOccurrences (map projectName ts)"
    by (simp add: aggregateXP_keys)
  then have "fst ` set (aggregateXP ts []) = projectName ` set ts"
    by (metis list.set_map set_firstOccurrences)
  with assms have "\<forall>entry \<in> set (aggregateXP ts []). \<not> isArrayIndex (fst entry)"
    by (metis (no_types, lifting) image_iff)
  then show ?thesis
    by (simp add: groupTotals_def objectEntries_no_index keys)
qed

lemma sortByTotalDesc_sorted: "sorted_wrt (\<lambda>a b. snd b \<le> snd a) (sortByTotalDesc entries)"
proof -
  have "sorted (map (\<lambda>entry. - snd entry) (sortByTotalDesc entries))"
    unfolding sortByTotalDesc_def by (rule sorted_sort_key)
  then show ?thesis by (simp add: sorted_map)
qed

lemma sortByTotalDesc_stable:
  "filter (\<lambda>g. snd g = v) (sortByTotalDesc entries) = filter (\<lambda>g. snd g = v) entries"
  using sort_key_stable [of "\<lambda>entry. - snd entry" "- v" entries]
  by (simp add: sortByTotalDesc_def)

lemma sortByTotalDesc_sum:
  "sum_list (map snd (sortByTotalDesc entries)) = sum_list (map snd entries)"
proof -
  have "mset (map snd (sortByTotalDesc entries)) = mset (map snd entries)"
    by (simp add: sortByTotalDesc_def)
  then show ?thesis by (metis sum_mset_sum_list)
qed

lemma sum_list_take_le:
  fixes vs :: "real list"
  assumes "\<forall>v \<in> set vs. 0 \<le> v"
  shows "sum_list (take n vs) \<le> sum_list vs"
proof -
  from assms have "0 \<le> sum_list (drop n vs)"
    by (intro sum_list_nonneg) (auto dest: in_set_dropD)
  moreover have "sum_list vs = sum_list (take n vs) + sum_list (drop n vs)"
    by (metis append_take_drop_id sum_list.append)
  ultimately show ?thesis by simp
qed

lemma displayedOf_createXPByProjectGraph:
  assumes "ts \<noteq> []"
  shows "displayedOf (createXPByProjectGraph (Some c) (Some ts))
           = take 15 (sortByTotalDesc (groupTotals ts))"
proof -
  from assms obtain t ts' where ts: "ts = t # ts'" by (cases ts) auto
  show ?thesis
    unfolding ts createXPByProjectGraph_def groupTotals_def
    by (simp add: Let_def del: aggregateXP.simps)
qed

text \<open>
  C3, as amended. For every non-empty record list rendered into an existing container,
  with no project named like an inherited property of the object literal: at most 15
  groups are displayed; they are in descending order of total; the displayed groups of
  any one total are a prefix of the groups of that total in the order of
  \<open>Object.entries\<close>, which is the order of first insertion when no project name is an
  array index; and when no group total is negative, the sum of the displayed totals is at
  most the sum of all group totals.
\<close>

theorem top15_sorted_stable:
  assumes "transactions \<noteq> []"
    and "\<forall>t \<in> set transactions. projectName t \<notin> set inheritedNames"
  shows "length (displayedOf (createXPByProjectGraph (Some c) (Some transactions))) \<le> 15
    \<and> sorted_wrt (\<lambda>a b. snd b \<le> snd a)
        (displayedOf (createXPByProjectGraph (Some c) (Some transactions)))
    \<and> (\<forall>v. prefix
          (filter (\<lambda>g. snd g = v) (displayedOf (createXPByProjectGraph (Some c) (Some transactions))))
          (filter (\<lambda>g. snd g = v) (groupTotals transactions)))
    \<and> ((\<forall>t \<in> set transactions. \<not> isArrayIndex (projectName t)) \<longrightarrow>
          map fst (groupTotals transactions) = firstOccurrences (map projectName transactions))
    \<and> ((\<forall>g \<in> set (groupTotals transactions). 0 \<le> snd g) \<longrightarrow>
          sum_list (map snd (displayedOf (createXPByProjectGraph (Some c) (Some transactions))))
            \<le> sum_list (map snd (groupTotals transactions)))"
proof -
  let ?all = "groupTotals transactions"
  let ?shown = "displayedOf (createXPByProjectGraph (Some c) (Some transactions))"
  have shown: "?shown = take 15 (sortByTotalDesc ?all)"
    using assms(1) by (rule displayedOf_createXPByProjectGraph)
  have len: "length ?shown \<le> 15"
    by (simp add: shown)
  have desc: "sorted_wrt (\<lambda>a b. snd b \<le> snd a) ?shown"
    unfolding shown by (intro sorted_wrt_take sortByTotalDesc_sorted)
  have ties: "prefix (filter (\<lambda>g. snd g = v) ?shown) (filter (\<lambda>g. snd g = v) ?all)" for v
  proof -
    have "prefix (filter (\<lambda>g. snd g = v) ?shown) (filter (\<lambda>g. snd g = v) (sortByTotalDesc ?all))"
      unfolding shown by (intro filter_mono_prefix take_is_prefix)
    then show ?thesis by (simp add: sortByTotalDesc_stable)
  qed
  have order: "map fst ?all = firstOccurrences (map projectName transactions)"
    if "\<forall>t \<in> set transactions. \<not> isArrayIndex (projectName t)"
    using that by (rule groupTotals_insertion_order)
  have total: "sum_list (map snd ?shown) \<le> sum_list (map snd ?all)"
    if "\<forall>g \<in> set ?all. 0 \<le> snd g"
  proof -
    from that have "\<forall>v \<in> set (map snd (sortByTotalDesc ?all)). 0 \<le> v"
      by (simp add: sortByTotalDesc_def)
    from sum_list_take_le [OF this, of 15] show ?thesis
      by (simp add: shown take_map sortByTotalDesc_sum)
  qed
  from len desc ties order total show ?thesis by blast
qed


theorem top15_sorted_stable_witness:
  "list_all (\<lambda>t. projectName t \<notin> set inheritedNames \<and> \<not> isArrayIndex (projectName t))
     [\<lparr>amount = 5, createdAt = 1, objectName = Some ''b''\<rparr>,
      \<lparr>amount = 7, createdAt = 2, objectName = Some ''a''\<rparr>,
      \<lparr>amount = 2, createdAt = 3, objectName = Some ''b''\<rparr>]
   \<and> list_all (\<lambda>g. 0 \<le> snd g) (groupTotals
     [\<lparr>amount = 5, createdAt = 1, objectName = Some ''b''\<rparr>,
      \<lparr>amount = 7, createdAt = 2, objectName = Some ''a''\<rparr>,
      \<lparr>amount = 2, createdAt = 3, objectName = Some ''b''\<rparr>])
   \<and> displayedOf (createXPByProjectGraph (Some (Element 800)) (Some
     [\<lparr>amount = 5, createdAt = 1, objectName = Some ''b''\<rparr>,
      \<lparr>amount = 7, createdAt = 2, objectName = Some ''a''\<rparr>,
      \<lparr>amount = 2, createdAt = 3, objectName = Some ''b''\<rparr>]))
       = [(''b'', 7), (''a'', 7)]
   \<and> map fst (groupTotals
     [\<lparr>amount = 5, createdAt = 1, objectName = Some ''b''\<rparr>,
      \<lparr>amount = 7, createdAt = 2, objectName = Some ''a''\<rparr>,
      \<lparr>amount = 2, createdAt = 3, objectName = Some ''b''\<rparr>])
       = firstOccurrences (map projectName
     [\<lparr>amount = 5, createdAt = 1, objectName = Some ''b''\<rparr>,
      \<lparr>amount = 7, createdAt = 2, objectName = Some ''a''\<rparr>,
      \<lparr>amount = 2, createdAt = 3, objectName = Some ''b''\<rparr>])
   \<and> sum_list (map snd (displayedOf (createXPByProjectGraph (Some (Element 800)) (Some
     [\<lparr>amount = 5, createdAt = 1, objectName = Some ''b''\<rparr>,
      \<lparr>amount = 7, createdAt = 2, objectName = Some ''a''\<rparr>,
      \<lparr>amount = 2, createdAt = 3, objectName = Some ''b''\<rparr>]))))
       \<le> sum_list (map snd (groupTotals
     [\<lparr>amount = 5, createdAt = 1, objectName = Some ''b''\<rparr>,
      \<lparr>amount = 7, createdAt = 2, objectName = Some ''a''\<rparr>,
      \<lparr>amount = 2, createdAt = 3, objectName = Some ''b''\<rparr>]))"
proof -
  let ?ts = "[\<lparr>amount = 5, createdAt = 1, objectName = Some ''b''\<rparr>,
      \<lparr>amount = 7, createdAt = 2, objectName = Some ''a''\<rparr>,
      \<lparr>amount = 2, createdAt = 3, objectName = Some ''b''\<rparr>]"
  have nonempty: "?ts \<noteq> []"
    by simp
  have all: "groupTotals ?ts = [(''b'', 7), (''a'', 7)]"
    by (simp add: groupTotals_def objectEntries_def projectName_def isArrayIndex_def
        digitValue_def)
  have shown: "displayedOf (createXPByProjectGraph (Some (Element 800)) (Some ?ts))
       = [(''b'', 7), (''a'', 7)]"
    using all by (simp add: displayedOf_createXPByProjectGraph sortByTotalDesc_def)
  have plain: "\<forall>t \<in> set ?ts. projectName t \<notin> set inheritedNames"
    by (simp add: projectName_def inheritedNames_def)
  have noindex: "\<forall>t \<in> set ?ts. \<not> isArrayIndex (projectName t)"
    by (simp add: projectName_def isArrayIndex_def digitValue_def)
  have nonneg: "\<forall>g \<in> set (groupTotals ?ts). 0 \<le> snd g"
    unfolding all by simp
  note main = top15_sorted_stable [OF nonempty plain, of "Element 800"]
  from main noindex
  have order: "map fst (groupTotals ?ts) = firstOccurrences (map projectName ?ts)"
    by blast
  from main nonneg
  have sum: "sum_list (map snd (displayedOf (createXPByProjectGraph (Some (Element 800)) (Some ?ts))))
       \<le> sum_list (map snd (groupTotals ?ts))"
    by blast
  from plain noindex have hyps: "list_all (\<lambda>t. projectName t \<notin> set inheritedNames
       \<and> \<not> isArrayIndex (projectName t)) ?ts"
    unfolding list_all_iff by blast
  from nonneg have hyp': "list_all (\<lambda>g. 0 \<le> snd g) (groupTotals ?ts)"
    unfolding list_all_iff by blast
  from hyps hyp' shown order sum show ?thesis
    by blast
qed

text \<open>
  The claim as it was worded, without these conditions, fails at sixteen projects of
  which the last has a negative total and the second is called \<open>7\<close>: the fifteen
  displayed totals sum to 23, all sixteen to -77; and among the two groups of total 5 the
  project \<open>7\<close> is displayed before \<open>zeta\<close>, which was inserted first.
\<close>

theorem top15_sum_and_ties_counterexample:
  "\<not> sum_list (map snd (displayedOf (createXPByProjectGraph (Some (Element 800)) (Some [\<lparr>amount = 5, createdAt = 1, objectName = Some ''zeta''\<rparr>,
            \<lparr>amount = 5, createdAt = 2, objectName = Some ''7''\<rparr>,
            \<lparr>amount = 1, createdAt = 3, objectName = Some ''a''\<rparr>,
            \<lparr>amount = 1, createdAt = 4, objectName = Some ''b''\<rparr>,
            \<lparr>amount = 1, createdAt = 5, objectName = Some ''c''\<rparr>,
            \<lparr>amount = 1, createdAt = 6, objectName = Some ''d''\<rparr>,
            \<lparr>amount = 1, createdAt = 7, objectName = Some ''e''\<rparr>,
            \<lparr>amount = 1, createdAt = 8, objectName = Some ''f''\<rparr>,
            \<lparr>amount = 1, createdAt = 9, objectName = Some ''g''\<rparr>,
            \<lparr>amount = 1, createdAt = 10, objectName = Some ''h''\<rparr>,
            \<lparr>amount = 1, createdAt = 11, objectName = Some ''i''\<rparr>,
            \<lparr>amount = 1, createdAt = 12, objectName = Some ''j''\<rparr>,
            \<lparr>amount = 1, createdAt = 13, objectName = Some ''k''\<rparr>,
            \<lparr>amount = 1, createdAt = 14, objectName = Some ''l''\<rparr>,
            \<lparr>amount = 1, createdAt = 15, objectName = Some ''m''\<rparr>,
            \<lparr>amount = - 100, createdAt = 16, objectName = Some ''n''\<rparr>]))))
       \<le> sum_list (map snd (groupTotals [\<lparr>amount = 5, createdAt = 1, objectName = Some ''zeta''\<rparr>,
            \<lparr>amount = 5, createdAt = 2, objectName = Some ''7''\<rparr>,
            \<lparr>amount = 1, createdAt = 3, objectName = Some ''a''\<rparr>,
            \<lparr>amount = 1, createdAt = 4, objectName = Some ''b''\<rparr>,
            \<lparr>amount = 1, createdAt = 5, objectName = Some ''c''\<rparr>,
            \<lparr>amount = 1, createdAt = 6, objectName = Some ''d''\<rparr>,
            \<lparr>amount = 1, createdAt = 7, objectName = Some ''e''\<rparr>,
            \<lparr>amount = 1, createdAt = 8, objectName = Some ''f''\<rparr>,
            \<lparr>amount = 1, createdAt = 9, objectName = Some ''g''\<rparr>,
            \<lparr>amount = 1, createdAt = 10, objectName = Some ''h''\<rparr>,
            \<lparr>amount = 1, createdAt = 11, objectName = Some ''i''\<rparr>,
            \<lparr>amount = 1, createdAt = 12, objectName = Some ''j''\<rparr>,
            \<lparr>amount = 1, createdAt = 13, objectName = Some ''k''\<rparr>,
            \<lparr>amount = 1, createdAt = 14, objectName = Some ''l''\<rparr>,
            \<lparr>amount = 1, createdAt = 15, objectName = Some ''m''\<rparr>,
            \<lparr>amount = - 100, createdAt = 16, objectName = Some ''n''\<rparr>]))
   \<and> take 2 (displayedOf (createXPByProjectGraph (Some (Element 800)) (Some [\<lparr>amount = 5, createdAt = 1, objectName = Some ''zeta''\<rparr>,
            \<lparr>amount = 5, createdAt = 2, objectName = Some ''7''\<rparr>,
            \<lparr>amount = 1, createdAt = 3, objectName = Some ''a''\<rparr>,
            \<lparr>amount = 1, createdAt = 4, objectName = Some ''b''\<rparr>,
            \<lparr>amount = 1, createdAt = 5, objectName = Some ''c''\<rparr>,
            \<lparr>amount = 1, createdAt = 6, objectName = Some ''d''\<rparr>,
            \<lparr>amount = 1, createdAt = 7, objectName = Some ''e''\<rparr>,
            \<lparr>amount = 1, createdAt = 8, objectName = Some ''f''\<rparr>,
            \<lparr>amount = 1, createdAt = 9, objectName = Some ''g''\<rparr>,
            \<lparr>amount = 1, createdAt = 10, objectName = Some ''h''\<rparr>,
            \<lparr>amount = 1, createdAt = 11, objectName = Some ''i''\<rparr>,
            \<lparr>amount = 1, createdAt = 12, objectName = Some ''j''\<rparr>,
            \<lparr>amount = 1, createdAt = 13, objectName = Some ''k''\<rparr>,
            \<lparr>amount = 1, createdAt = 14, objectName = Some ''l''\<rparr>,
            \<lparr>amount = 1, createdAt = 15, objectName = Some ''m''\<rparr>,
            \<lparr>amount = - 100, createdAt = 16, objectName = Some ''n''\<rparr>])))
       = [(''7'', 5), (''zeta'', 5)]
   \<and> take 2 (firstOccurrences (map projectName [\<lparr>amount = 5, createdAt = 1, objectName = Some ''zeta''\<rparr>,
            \<lparr>amount = 5, createdAt = 2, objectName = Some ''7''\<rparr>,
            \<lparr>amount = 1, createdAt = 3, objectName = Some ''a''\<rparr>,
            \<lparr>amount = 1, createdAt = 4, objectName = Some ''b''\<rparr>,
            \<lparr>amount = 1, createdAt = 5, objectName = Some ''c''\<rparr>,
            \<lparr>amount = 1, createdAt = 6, objectName = Some ''d''\<rparr>,
            \<lparr>amount = 1, createdAt = 7, objectName = Some ''e''\<rparr>,
            \<lparr>amount = 1, createdAt = 8, objectName = Some ''f''\<rparr>,
            \<lparr>amount = 1, createdAt = 9, objectName = Some ''g''\<rparr>,
            \<lparr>amount = 1, createdAt = 10, objectName = Some ''h''\<rparr>,
            \<lparr>amount = 1, createdAt = 11, objectName = Some ''i''\<rparr>,
            \<lparr>amount = 1, createdAt = 12, objectName = Some ''j''\<rparr>,
            \<lparr>amount = 1, createdAt = 13, objectName = Some ''k''\<rparr>,
            \<lparr>amount = 1, createdAt = 14, objectName = Some ''l''\<rparr>,
            \<lparr>amount = 1, createdAt = 15, objectName = Some ''m''\<rparr>,
            \<lparr>amount = - 100, createdAt = 16, objectName = Some ''n''\<rparr>])) = [''zeta'', ''7'']"
proof -
  have all: "groupTotals [\<lparr>amount = 5, createdAt = 1, objectName = Some ''zeta''\<rparr>,
            \<lparr>amount = 5, createdAt = 2, objectName = Some ''7''\<rparr>,
            \<lparr>amount = 1, createdAt = 3, objectName = Some ''a''\<rparr>,
            \<lparr>amount = 1, createdAt = 4, objectName = Some ''b''\<rparr>,
            \<lparr>amount = 1, createdAt = 5, objectName = Some ''c''\<rparr>,
            \<lparr>amount = 1, createdAt = 6, objectName = Some ''d''\<rparr>,
            \<lparr>amount = 1, createdAt = 7, objectName = Some ''e''\<rparr>,
            \<lparr>amount = 1, createdAt = 8, objectName = Some ''f''\<rparr>,
            \<lparr>amount = 1, createdAt = 9, objectName = Some ''g''\<rparr>,
            \<lparr>amount = 1, createdAt = 10, objectName = Some ''h''\<rparr>,
            \<lparr>amount = 1, createdAt = 11, objectName = Some ''i''\<rparr>,
            \<lparr>amount = 1, createdAt = 12, objectName = Some ''j''\<rparr>,
            \<lparr>amount = 1, createdAt = 13, objectName = Some ''k''\<rparr>,
            \<lparr>amount = 1, createdAt = 14, objectName = Some ''l''\<rparr>,
            \<lparr>amount = 1, createdAt = 15, objectName = Some ''m''\<rparr>,
            \<lparr>amount = - 100, createdAt = 16, objectName = Some ''n''\<rparr>]
       = [(''7'', 5), (''zeta'', 5), (''a'', 1), (''b'', 1), (''c'', 1), (''d'', 1), (''e'', 1),
          (''f'', 1), (''g'', 1), (''h'', 1), (''i'', 1), (''j'', 1), (''k'', 1), (''l'', 1),
          (''m'', 1), (''n'', - 100)]"
    by (simp add: groupTotals_def objectEntries_def projectName_def isArrayIndex_def
        digitValue_def indexValue_def)
  have shown: "displayedOf (createXPByProjectGraph (Some (Element 800)) (Some [\<lparr>amount = 5, createdAt = 1, objectName = Some ''zeta''\<rparr>,
            \<lparr>amount = 5, createdAt = 2, objectName = Some ''7''\<rparr>,
            \<lparr>amount = 1, createdAt = 3, objectName = Some ''a''\<rparr>,
            \<lparr>amount = 1, createdAt = 4, objectName = Some ''b''\<rparr>,
            \<lparr>amount = 1, createdAt = 5, objectName = Some ''c''\<rparr>,
            \<lparr>amount = 1, createdAt = 6, objectName = Some ''d''\<rparr>,
            \<lparr>amount = 1, createdAt = 7, objectName = Some ''e''\<rparr>,
            \<lparr>amount = 1, createdAt = 8, objectName = Some ''f''\<rparr>,
            \<lparr>amount = 1, createdAt = 9, objectName = Some ''g''\<rparr>,
            \<lparr>amount = 1, createdAt = 10, objectName = Some ''h''\<rparr>,
            \<lparr>amount = 1, createdAt = 11, objectName = Some ''i''\<rparr>,
            \<lparr>amount = 1, createdAt = 12, objectName = Some ''j''\<rparr>,
            \<lparr>amount = 1, createdAt = 13, objectName = Some ''k''\<rparr>,
            \<lparr>amount = 1, createdAt = 14, objectName = Some ''l''\<rparr>,
            \<lparr>amount = 1, createdAt = 15, objectName = Some ''m''\<rparr>,
            \<lparr>amount = - 100, createdAt = 16, objectName = Some ''n''\<rparr>]))
       = [(''7'', 5), (''zeta'', 5), (''a'', 1), (''b'', 1), (''c'', 1), (''d'', 1), (''e'', 1),
          (''f'', 1), (''g'', 1), (''h'', 1), (''i'', 1), (''j'', 1), (''k'', 1), (''l'', 1),
          (''m'', 1)]"
    by (simp add: displayedOf_createXPByProjectGraph all sortByTotalDesc_def)
  have first: "take 2 (firstOccurrences (map projectName [\<lparr>amount = 5, createdAt = 1, objectName = Some ''zeta''\<rparr>,
            \<lparr>amount = 5, createdAt = 2, objectName = Some ''7''\<rparr>,
            \<lparr>amount = 1, createdAt = 3, objectName = Some ''a''\<rparr>,
            \<lparr>amount = 1, createdAt = 4, objectName = Some ''b''\<rparr>,
            \<lparr>amount = 1, createdAt = 5, objectName = Some ''c''\<rparr>,
            \<lparr>amount = 1, createdAt = 6, objectName = Some ''d''\<rparr>,
            \<lparr>amount = 1, createdAt = 7, objectName = Some ''e''\<rparr>,
            \<lparr>amount = 1, createdAt = 8, objectName = Some ''f''\<rparr>,
            \<lparr>amount = 1, createdAt = 9, objectName = Some ''g''\<rparr>,
            \<lparr>amount = 1, createdAt = 10, objectName = Some ''h''\<rparr>,
            \<lparr>amount = 1, createdAt = 11, objectName = Some ''i''\<rparr>,
            \<lparr>amount = 1, createdAt = 12, objectName = Some ''j''\<rparr>,
            \<lparr>amount = 1, createdAt = 13, objectName = Some ''k''\<rparr>,
            \<lparr>amount = 1, createdAt = 14, objectName = Some ''l''\<rparr>,
            \<lparr>amount = 1, createdAt = 15, objectName = Some ''m''\<rparr>,
            \<lparr>amount = - 100, createdAt = 16, objectName = Some ''n''\<rparr>])) = [''zeta'', ''7'']"
    by (simp add: projectName_def)
  show ?thesis
    unfolding all shown first by simp
qed

section \<open>Properties of the conversion in binary64 arithmetic\<close>

subsection \<open>Bounds on \<open>\<pi>\<close> from Machin's formula\<close>

lemma arctan_partial_sums:
  fixes x :: real
  assumes "0 < x" "x \<le> 1"
  shows "(\<Sum>i<2*n. (- 1) ^ i * (1 / real (i * 2 + 1) * x ^ (i * 2 + 1))) \<le> arctan x"
    and "arctan x \<le> (\<Sum>i<2*n+1. (- 1) ^ i * (1 / real (i * 2 + 1) * x ^ (i * 2 + 1)))"
proof -
  from assms have x: "\<bar>x\<bar> \<le> 1" by simp
  let ?a = "\<lambda>i. 1 / real (i * 2 + 1) * x ^ (i * 2 + 1)"
  from assms have "0 < ?a 0" by simp
  with summable_Leibniz(2) [OF zeroseq_arctan_series [OF x] monoseq_arctan_series [OF x]]
  have "(\<Sum>i. (- 1) ^ i * ?a i) \<in> {\<Sum>i<2*n. (- 1) ^ i * ?a i .. \<Sum>i<2*n+1. (- 1) ^ i * ?a i}"
    by blast
  then show "(\<Sum>i<2*n. (- 1) ^ i * ?a i) \<le> arctan x"
    and "arctan x \<le> (\<Sum>i<2*n+1. (- 1) ^ i * ?a i)"
    by (simp_all add: arctan_series [OF x])
qed

lemma arctan_fifth_lower: "295294730178639298589974654 / 1495954267680644989013671875 \<le> arctan (1 / 5)"
  using arctan_partial_sums(1) [of "1 / 5" 7] by (simp add: eval_nat_numeral)

lemma arctan_fifth_upper: "arctan (1 / 5) \<le> 214088679379513491477932407733 / 1084566844068467617034912109375"
  using arctan_partial_sums(2) [of "1 / 5" 7] by (simp add: eval_nat_numeral)

lemma arctan_239_lower: "19569249503065996 / 4677077924340368295 \<le> arctan (1 / 239)"
  using arctan_partial_sums(1) [of "1 / 239" 2] by (simp add: eval_nat_numeral)

lemma arctan_239_upper: "arctan (1 / 239) \<le> 3353445302593898272583 / 801478104348738532136085"
  using arctan_partial_sums(2) [of "1 / 239" 2] by (simp add: eval_nat_numeral)

lemma pi_bounds:
  "MathPI + 1224618 / 10 ^ 22 < pi" "pi < MathPI + 1224650 / 10 ^ 22"
proof -
  have pi: "pi = 16 * arctan (1 / 5) - 4 * arctan (1 / 239)"
    using machin by simp
  show "MathPI + 1224618 / 10 ^ 22 < pi"
    unfolding pi MathPI_def using arctan_fifth_lower arctan_239_upper by simp
  show "pi < MathPI + 1224650 / 10 ^ 22"
    unfolding pi MathPI_def using arctan_fifth_upper arctan_239_lower by simp
qed

subsection \<open>Rounding\<close>

lemma roundHalfEven_near:
  assumes "of_int m - 1 / 2 < v" and "v < of_int m + 1 / 2"
  shows "roundHalfEven v = m"
proof (cases "of_int m \<le> v")
  case True
  with assms have "\<lfloor>v\<rfloor> = m" by (intro floor_unique) auto
  with assms show ?thesis by (simp add: roundHalfEven_def Let_def)
next
  case False
  with assms have "\<lfloor>v\<rfloor> = m - 1" by (intro floor_unique) auto
  with assms False show ?thesis by (simp add: roundHalfEven_def Let_def)
qed

lemma roundHalfEven_of_int [simp]: "roundHalfEven (of_int m) = m"
  by (rule roundHalfEven_near) simp_all

lemma roundHalfEven_error: "\<bar>of_int (roundHalfEven v) - v\<bar> \<le> 1 / 2"
proof -
  have "of_int \<lfloor>v\<rfloor> \<le> v" "v < of_int \<lfloor>v\<rfloor> + 1" by linarith+
  then show ?thesis
    by (auto simp: roundHalfEven_def Let_def)
qed

lemma roundHalfEven_minus: "roundHalfEven (- v) = - roundHalfEven v"
proof (cases "v = of_int \<lfloor>v\<rfloor>")
  case True
  then obtain m where "v = of_int m" ..
  then have "- v = of_int (- m)" by simp
  then show ?thesis unfolding \<open>v = of_int m\<close> by (metis roundHalfEven_of_int)
next
  case False
  then have lt: "of_int \<lfloor>v\<rfloor> < v" "v < of_int \<lfloor>v\<rfloor> + 1" by linarith+
  then have fl: "\<lfloor>- v\<rfloor> = - \<lfloor>v\<rfloor> - 1" by linarith
  show ?thesis
    using lt by (auto simp: roundHalfEven_def Let_def fl)
qed

lemma binaryExponent_eqI:
  assumes "2 powr of_int e \<le> \<bar>v\<bar>" and "\<bar>v\<bar> < 2 powr of_int (e + 1)"
  shows "binaryExponent v = e"
proof -
  have "0 < (2::real) powr of_int e" by simp
  with assms(1) have "0 < \<bar>v\<bar>" by linarith
  with assms show ?thesis
    unfolding binaryExponent_def by (subst floor_log_eq_powr_iff) (auto simp: add.commute)
qed

lemma binaryExponent_bounds:
  assumes "v \<noteq> 0"
  shows "2 powr of_int (binaryExponent v) \<le> \<bar>v\<bar>"
    and "\<bar>v\<bar> < 2 powr of_int (binaryExponent v + 1)"
proof -
  from assms have "0 < \<bar>v\<bar>" by simp
  from floor_log_eq_powr_iff [OF this, of 2 "binaryExponent v"]
  show "2 powr of_int (binaryExponent v) \<le> \<bar>v\<bar>"
    and "\<bar>v\<bar> < 2 powr of_int (binaryExponent v + 1)"
    by (simp_all add: binaryExponent_def add.commute)
qed

lemma round64_eq:
  assumes "2 powr of_int e \<le> \<bar>v\<bar>" and "\<bar>v\<bar> < 2 powr of_int (e + 1)"
  shows "round64 v = 2 powr of_int (e - 52) * of_int (roundHalfEven (v / 2 powr of_int (e - 52)))"
proof -
  have "0 < (2::real) powr of_int e" by simp
  with assms(1) have "v \<noteq> 0" by auto
  with binaryExponent_eqI [OF assms] show ?thesis
    by (simp add: round64_def Let_def)
qed

lemma round64_minus: "round64 (- v) = - round64 v"
  by (simp add: round64_def Let_def binaryExponent_def roundHalfEven_minus)

lemma round64_zero [simp]: "round64 0 = 0"
  by (simp add: round64_def)

lemma round64_error: "\<bar>round64 v - v\<bar> \<le> 2 powr (- 53) * \<bar>v\<bar>"
proof (cases "v = 0")
  case True
  then show ?thesis by simp
next
  case False
  define e where "e = binaryExponent v"
  define u :: real where "u = 2 powr of_int (e - 52)"
  have u: "0 < u" by (simp add: u_def)
  have r: "round64 v = u * of_int (roundHalfEven (v / u))"
    using False by (simp add: round64_def Let_def e_def u_def)
  have "round64 v - v = u * (of_int (roundHalfEven (v / u)) - v / u)"
    unfolding r using u by (simp add: algebra_simps)
  then have "\<bar>round64 v - v\<bar> = u * \<bar>of_int (roundHalfEven (v / u)) - v / u\<bar>"
    using u by (simp add: abs_mult)
  also have "\<dots> \<le> u * (1 / 2)"
    using u roundHalfEven_error [of "v / u"] by (intro mult_left_mono) auto
  also have "\<dots> = 2 powr (- 53) * 2 powr of_int e"
    by (simp add: u_def powr_diff powr_minus field_simps)
  also have "\<dots> \<le> 2 powr (- 53) * \<bar>v\<bar>"
    using binaryExponent_bounds(1) [OF False] by (intro mult_left_mono) (auto simp: e_def)
  finally show ?thesis .
qed

lemma round64_pos:
  assumes "0 < v"
  shows "0 < round64 v"
proof -
  from round64_error [of v] assms have "v - 2 powr (- 53) * v \<le> round64 v"
    by (simp add: abs_le_iff)
  moreover have "(2::real) powr (- 53) < 1"
    by (simp add: powr_minus field_simps)
  then have "0 < v - 2 powr (- 53) * v"
    using assms by (simp add: algebra_simps)
  ultimately show ?thesis by linarith
qed

lemma round64_nonneg:
  assumes "0 \<le> v"
  shows "0 \<le> round64 v"
proof (cases "v = 0")
  case True
  then show ?thesis by simp
next
  case False
  with assms have "0 < v" by simp
  from round64_pos [OF this] show ?thesis by simp
qed

lemma round64_absorb:
  assumes dbl: "round64 a = a"
    and lo: "2 powr of_int e \<le> a" and hi: "a < 2 powr of_int (e + 1)"
    and t: "0 \<le> t" "t < 2 powr of_int (e - 53)"
  shows "round64 (a + t) = a"
proof -
  define u :: real where "u = 2 powr of_int (e - 52)"
  define m where "m = roundHalfEven (a / u)"
  have u: "0 < u" by (simp add: u_def)
  have "0 < (2::real) powr of_int e" by simp
  with lo have pos: "0 < a" by linarith
  have a: "a = u * of_int m"
    using round64_eq [of e a] lo hi pos dbl by (simp add: u_def m_def)
  have p1: "(2::real) powr of_int (e + 1) = u * 2 ^ 53"
    by (simp add: u_def powr_diff powr_add powr_realpow [symmetric] field_simps)
  have p2: "(2::real) powr of_int (e - 53) = u / 2"
    by (simp add: u_def powr_diff field_simps)
  from hi have "of_int m < (2::real) ^ 53"
    unfolding p1 a using u by simp
  then have "m < 2 ^ 53" by (metis of_int_less_iff of_int_numeral of_int_power)
  then have "m + 1 \<le> 2 ^ 53" by simp
  then have "of_int (m + 1) \<le> (2::real) ^ 53" by (metis of_int_le_iff of_int_numeral of_int_power)
  then have m: "of_int m + 1 \<le> (2::real) ^ 53" by simp
  have "a + t < u * of_int m + u / 2"
    using t(2) unfolding p2 a by simp
  also have "\<dots> < u * (of_int m + 1)"
    using u by (simp add: algebra_simps)
  also have "\<dots> \<le> u * 2 ^ 53"
    using u m by (intro mult_left_mono) auto
  finally have "a + t < 2 powr of_int (e + 1)"
    unfolding p1 .
  moreover have "\<bar>a + t\<bar> = a + t"
    using pos t(1) by simp
  ultimately have hi': "\<bar>a + t\<bar> < 2 powr of_int (e + 1)"
    by (simp only:)
  have lo': "2 powr of_int e \<le> \<bar>a + t\<bar>"
    using lo t(1) pos by linarith
  have "(a + t) / u = of_int m + t / u"
    unfolding a using u by (simp add: field_simps)
  moreover have "0 \<le> t / u" "t / u < 1 / 2"
    using t u unfolding p2 by (simp_all add: field_simps)
  ultimately have "roundHalfEven ((a + t) / u) = m"
    by (intro roundHalfEven_near) simp_all
  with round64_eq [OF lo' hi'] show ?thesis
    by (simp add: u_def a)
qed

lemma round64_absorb_below:
  assumes dbl: "round64 a = a"
    and lo: "2 powr of_int e < a" and hi: "a < 2 powr of_int (e + 1)"
    and t: "0 \<le> t" "t < 2 powr of_int (e - 53)"
  shows "round64 (a - t) = a"
proof -
  define u :: real where "u = 2 powr of_int (e - 52)"
  define m where "m = roundHalfEven (a / u)"
  have u: "0 < u" by (simp add: u_def)
  have "0 < (2::real) powr of_int e" by simp
  with lo have pos: "0 < a" by linarith
  have a: "a = u * of_int m"
    using round64_eq [of e a] lo hi pos dbl by (simp add: u_def m_def)
  have p0: "(2::real) powr of_int e = u * 2 ^ 52"
    by (simp add: u_def powr_diff powr_realpow [symmetric] field_simps)
  have p2: "(2::real) powr of_int (e - 53) = u / 2"
    by (simp add: u_def powr_diff field_simps)
  from lo have "(2::real) ^ 52 < of_int m"
    unfolding p0 a using u by simp
  then have "2 ^ 52 < m" by (metis of_int_less_iff of_int_numeral of_int_power)
  then have "2 ^ 52 + 1 \<le> m" by simp
  then have "of_int (2 ^ 52 + 1) \<le> (of_int m :: real)" by (metis of_int_le_iff)
  then have m: "(2::real) ^ 52 + 1 \<le> of_int m" by simp
  have "u * 2 ^ 52 < u * (2 ^ 52 + 1) - u / 2"
    using u by (simp add: algebra_simps)
  also have "\<dots> \<le> u * of_int m - u / 2"
    using u m by (simp add: mult_left_mono)
  also have "\<dots> < a - t"
    using t(2) unfolding p2 a by simp
  finally have gt: "2 powr of_int e < a - t"
    unfolding p0 .
  then have lo': "2 powr of_int e \<le> \<bar>a - t\<bar>"
    by linarith
  have "0 < a - t" using gt \<open>0 < 2 powr of_int e\<close> by linarith
  with hi t(1) have hi': "\<bar>a - t\<bar> < 2 powr of_int (e + 1)"
    by linarith
  have q: "(a - t) / u = of_int m - t / u"
    unfolding a using u by (simp add: field_simps)
  have "0 \<le> t / u" "t / u < 1 / 2"
    using t u unfolding p2 by (simp_all add: field_simps)
  then have "roundHalfEven (of_int m - t / u) = m"
    by (intro roundHalfEven_near) linarith+
  then have "roundHalfEven ((a - t) / u) = m"
    by (simp only: q)
  with round64_eq [OF lo' hi'] show ?thesis
    by (simp add: u_def a)
qed

lemma round64_near_one:
  assumes "1 - 1 / 2 ^ 54 < w" and "w \<le> 1"
  shows "round64 w = 1"
proof (cases "w = 1")
  case True
  have "round64 1 = 2 powr of_int (0 - 52) * of_int (roundHalfEven (1 / 2 powr of_int (0 - 52)))"
    by (rule round64_eq) simp_all
  also have "1 / 2 powr of_int (0 - 52) = (of_int (2 ^ 52) :: real)"
    by (simp add: powr_minus field_simps)
  finally show ?thesis
    unfolding True roundHalfEven_of_int by (simp add: powr_minus)
next
  case False
  with assms have w: "1 / 2 \<le> \<bar>w\<bar>" "\<bar>w\<bar> < 1" by simp_all
  have "round64 w = 2 powr of_int (- 1 - 52) * of_int (roundHalfEven (w / 2 powr of_int (- 1 - 52)))"
    using w by (intro round64_eq) (simp_all add: powr_minus)
  moreover have "w / 2 powr of_int (- 1 - 52) = w * 2 ^ 53"
    by (simp add: powr_minus field_simps)
  moreover have "roundHalfEven (w * 2 ^ 53) = 2 ^ 53"
    using assms False by (intro roundHalfEven_near) (simp_all add: field_simps)
  ultimately show ?thesis
    by (simp add: powr_minus)
qed

lemma round64_dyadic:
  assumes "\<bar>m\<bar> < 2 ^ 53"
  shows "round64 (of_int m * 2 powr of_int k) = of_int m * 2 powr of_int k"
proof (cases "m = 0")
  case True
  then show ?thesis by simp
next
  case False
  define v :: real where "v = of_int m * 2 powr of_int k"
  define e where "e = binaryExponent v"
  have v: "v \<noteq> 0" using False by (simp add: v_def)
  have "2 powr of_int e \<le> \<bar>v\<bar>"
    using binaryExponent_bounds(1) [OF v] by (simp add: e_def)
  also have "\<bar>v\<bar> = of_int \<bar>m\<bar> * 2 powr of_int k"
    by (simp add: v_def abs_mult)
  also have "\<dots> < 2 ^ 53 * 2 powr of_int k"
  proof -
    from assms have "of_int \<bar>m\<bar> < (2::real) ^ 53"
      by (metis of_int_less_iff of_int_numeral of_int_power)
    then show ?thesis by (intro mult_strict_right_mono) simp_all
  qed
  also have "\<dots> = 2 powr of_int (k + 53)"
    by (simp add: powr_add powr_realpow [symmetric])
  finally have "e < k + 53" by simp
  define j where "j = nat (k - e + 52)"
  with \<open>e < k + 53\<close> have j: "k = e - 52 + int j"
    by simp
  have "v / 2 powr of_int (e - 52) = of_int m * 2 powr of_int (int j)"
    unfolding v_def j by (simp add: powr_add)
  also have "\<dots> = of_int (m * 2 ^ j)"
    by (simp add: powr_realpow)
  finally have "roundHalfEven (v / 2 powr of_int (e - 52)) = m * 2 ^ j"
    by (simp only: roundHalfEven_of_int)
  then have "round64 v = 2 powr of_int (e - 52) * of_int (m * 2 ^ j)"
    using v by (simp add: round64_def Let_def e_def)
  also have "\<dots> = v"
    unfolding v_def j by (simp add: powr_add powr_realpow)
  finally show ?thesis by (simp add: v_def)
qed

lemma round64_of_int:
  assumes "\<bar>m\<bar> < 2 ^ 53"
  shows "round64 (of_int m) = of_int m"
  using round64_dyadic [OF assms, of 0] by simp

lemma round64_numeral [simp]:
  "numeral n < (2::int) ^ 53 \<Longrightarrow> round64 (numeral n) = numeral n"
  using round64_of_int [of "numeral n"] by simp

subsection \<open>The conversion at angle 0\<close>

lemma angleRad_zero:
  "round64 (round64 (round64 (0 - 90) * MathPI) / 180) = - (MathPI / 2)"
proof -
  have a: "round64 (0 - 90) = - 90"
    by (simp add: round64_minus)
  have "round64 (90 * MathPI)
      = 2 powr of_int (8 - 52) * of_int (roundHalfEven (90 * MathPI / 2 powr of_int (8 - 52)))"
    by (rule round64_eq) (simp_all add: MathPI_def)
  moreover have "roundHalfEven (90 * MathPI / 2 powr of_int (8 - 52)) = 4974073419394997"
    by (rule roundHalfEven_near) (simp_all add: MathPI_def powr_minus)
  ultimately have b: "round64 (- 90 * MathPI) = - (4974073419394997 / 2 ^ 44)"
    using round64_minus [of "90 * MathPI"] by (simp add: powr_minus)
  have "round64 (4974073419394997 / 2 ^ 44 / 180)
      = 2 powr of_int (0 - 52)
          * of_int (roundHalfEven (4974073419394997 / 2 ^ 44 / 180 / 2 powr of_int (0 - 52)))"
    by (rule round64_eq) simp_all
  moreover have "roundHalfEven (4974073419394997 / 2 ^ 44 / 180 / 2 powr of_int (0 - 52))
      = 7074237752028440"
    by (rule roundHalfEven_near) (simp_all add: powr_minus)
  ultimately have c: "round64 (- (4974073419394997 / 2 ^ 44) / 180) = - (MathPI / 2)"
    using round64_minus [of "4974073419394997 / 2 ^ 44 / 180"]
    by (simp add: powr_minus MathPI_def)
  show ?thesis
    unfolding a b c ..
qed

lemma halfGap_bounds: "0 < halfGap" "halfGap < 612325 / 10 ^ 22"
  using pi_bounds by (simp_all add: halfGap_def)

lemma cos_half_MathPI: "cos (MathPI / 2) = sin halfGap"
  unfolding halfGap_def using cos_sin_eq [of "MathPI / 2"] by simp

lemma sin_half_MathPI: "sin (MathPI / 2) = cos halfGap"
  unfolding halfGap_def using sin_cos_eq [of "MathPI / 2"] by simp

lemma sin_halfGap: "0 < sin halfGap" "sin halfGap \<le> halfGap"
proof -
  have "halfGap < pi"
    using halfGap_bounds(2) pi_ge_two by simp
  with halfGap_bounds(1) show "0 < sin halfGap"
    by (rule sin_gt_zero)
  show "sin halfGap \<le> halfGap"
    using halfGap_bounds(1) by (intro sin_x_le_x) simp
qed

lemma cos_lower: "1 - v\<^sup>2 / 2 \<le> cos v" for v :: real
proof -
  have "\<bar>sin (v / 2)\<bar> \<le> \<bar>v / 2\<bar>"
    by (rule abs_sin_x_le_abs_x)
  then have "(sin (v / 2))\<^sup>2 \<le> (v / 2)\<^sup>2"
    by (metis abs_le_square_iff)
  moreover have "cos v = 1 - 2 * (sin (v / 2))\<^sup>2"
    using cos_double_sin [of "v / 2"] by simp
  ultimately show ?thesis
    by (simp add: power2_eq_square)
qed

lemma cos_halfGap: "1 - 1 / 2 ^ 54 < cos halfGap" "cos halfGap \<le> 1"
proof -
  have "halfGap\<^sup>2 < (612325 / 10 ^ 22)\<^sup>2"
    using halfGap_bounds by (intro power_strict_mono) simp_all
  moreover have "(612325 / 10 ^ 22)\<^sup>2 < (1 / 2 ^ 53 :: real)"
    by (simp add: power2_eq_square)
  ultimately have "1 - 1 / 2 ^ 54 < 1 - halfGap\<^sup>2 / 2"
    by simp
  with cos_lower [of halfGap] show "1 - 1 / 2 ^ 54 < cos halfGap"
    by linarith
  show "cos halfGap \<le> 1" by simp
qed


lemma mathCos_top:
  "0 < mathCos (- (MathPI / 2))" "mathCos (- (MathPI / 2)) < 612326 / 10 ^ 22"
proof -
  have c: "mathCos (- (MathPI / 2)) = round64 (sin halfGap)"
    by (simp add: mathCos_def cos_half_MathPI)
  show "0 < mathCos (- (MathPI / 2))"
    unfolding c using sin_halfGap(1) by (rule round64_pos)
  have "round64 (sin halfGap) \<le> sin halfGap + 2 powr (- 53) * sin halfGap"
    using round64_error [of "sin halfGap"] sin_halfGap(1) by (simp add: abs_le_iff)
  also have "\<dots> = sin halfGap * (1 + 1 / 2 ^ 53)"
    by (simp add: powr_minus field_simps)
  also have "\<dots> \<le> halfGap * (1 + 1 / 2 ^ 53)"
    using sin_halfGap(2) by (intro mult_right_mono) simp_all
  also have "\<dots> < 612325 / 10 ^ 22 * (1 + 1 / 2 ^ 53)"
    using halfGap_bounds(2) by (intro mult_strict_right_mono) simp_all
  also have "\<dots> < 612326 / 10 ^ 22"
    by simp
  finally show "mathCos (- (MathPI / 2)) < 612326 / 10 ^ 22"
    unfolding c .
qed




lemma cosTop_absorbed:
  assumes dbl: "round64 cx = cx" and r: "0 \<le> radius" "radius \<le> 7 / 8 * cx"
  shows "round64 (cx + round64 (radius * mathCos (- (MathPI / 2)))) = cx"
proof (cases "cx = 0")
  case True
  with r have "radius = 0" by simp
  with True show ?thesis by simp
next
  case False
  with r have pos: "0 < cx" by simp
  define c where "c = mathCos (- (MathPI / 2))"
  define t where "t = round64 (radius * c)"
  define e where "e = binaryExponent cx"
  have c: "0 < c" "c < 612326 / 10 ^ 22"
    using mathCos_top by (simp_all add: c_def)
  have lo: "2 powr of_int e \<le> cx" and hi: "cx < 2 powr of_int (e + 1)"
    using binaryExponent_bounds [OF False] pos by (simp_all add: e_def)
  have rc: "0 \<le> radius * c"
    using r(1) c(1) by simp
  then have t0: "0 \<le> t"
    unfolding t_def by (rule round64_nonneg)
  have "t \<le> radius * c + 2 powr (- 53) * (radius * c)"
    using round64_error [of "radius * c"] rc by (simp add: t_def abs_le_iff)
  also have "\<dots> = radius * (c * (1 + 1 / 2 ^ 53))"
    by (simp add: powr_minus field_simps)
  also have "\<dots> \<le> (7 / 8 * cx) * (c * (1 + 1 / 2 ^ 53))"
    using r(2) c(1) by (intro mult_right_mono) simp_all
  also have "\<dots> \<le> (7 / 8 * cx) * (612326 / 10 ^ 22 * (1 + 1 / 2 ^ 53))"
    using c(2) pos by (intro mult_left_mono mult_right_mono) simp_all
  also have "\<dots> \<le> cx / 2 ^ 54"
    using pos by simp
  also have "\<dots> < 2 powr of_int (e + 1) / 2 ^ 54"
    using hi by (simp add: divide_strict_right_mono)
  also have "\<dots> = 2 powr of_int (e - 53)"
    by (simp add: powr_add powr_diff powr_realpow [symmetric] field_simps)
  finally have "t < 2 powr of_int (e - 53)" .
  from round64_absorb [OF dbl lo hi t0 this] show ?thesis
    by (simp add: t_def c_def)
qed





subsection \<open>The points of the traced paths\<close>

text \<open>
  At the centre \<open>(300, 150)\<close> of a container 600 wide, with the radii 110 and 66 and the
  angles \<open>-90\<close>, 180 and 270 of the slices for the values (3, 1), the conversion in
  binary64 arithmetic yields the same points as the conversion in exact arithmetic.
\<close>

lemma round64_180_MathPI: "round64 (180 * MathPI) = 4974073419394997 / 2 ^ 43"
proof -
  have "round64 (180 * MathPI)
      = 2 powr of_int (9 - 52) * of_int (roundHalfEven (180 * MathPI / 2 powr of_int (9 - 52)))"
    by (rule round64_eq) (simp_all add: MathPI_def)
  moreover have "roundHalfEven (180 * MathPI / 2 powr of_int (9 - 52)) = 4974073419394997"
    by (rule roundHalfEven_near) (simp_all add: MathPI_def powr_minus)
  ultimately show ?thesis
    by (simp add: powr_minus)
qed

lemma round64_to_MathPI: "round64 (4974073419394997 / 2 ^ 43 / 180) = MathPI"
proof -
  have "round64 (4974073419394997 / 2 ^ 43 / 180)
      = 2 powr of_int (1 - 52)
          * of_int (roundHalfEven (4974073419394997 / 2 ^ 43 / 180 / 2 powr of_int (1 - 52)))"
    by (rule round64_eq) simp_all
  moreover have "roundHalfEven (4974073419394997 / 2 ^ 43 / 180 / 2 powr of_int (1 - 52))
      = 7074237752028440"
    by (rule roundHalfEven_near) (simp_all add: powr_minus)
  ultimately show ?thesis
    by (simp add: powr_minus MathPI_def)
qed

lemma angleRad_270: "round64 (round64 (round64 (270 - 90) * MathPI) / 180) = MathPI"
proof -
  have "round64 (270 - 90) = 180" by simp
  then show ?thesis
    by (simp only: round64_180_MathPI round64_to_MathPI)
qed

lemma angleRad_minus_90: "round64 (round64 (round64 (- 90 - 90) * MathPI) / 180) = - MathPI"
proof -
  have a: "round64 (- 90 - 90) = - 180" by (simp add: round64_minus)
  have b: "round64 (- 180 * MathPI) = - (4974073419394997 / 2 ^ 43)"
    using round64_minus [of "180 * MathPI"] by (simp add: round64_180_MathPI)
  have "- (4974073419394997 / 2 ^ 43) / 180 = - (4974073419394997 / 2 ^ 43 / (180::real))"
    by simp
  then have c: "round64 (- (4974073419394997 / 2 ^ 43) / 180) = - MathPI"
    by (simp only: round64_minus round64_to_MathPI)
  show ?thesis
    unfolding a b c ..
qed

lemma angleRad_180: "round64 (round64 (round64 (180 - 90) * MathPI) / 180) = MathPI / 2"
proof -
  have a: "round64 (180 - 90) = 90" by simp
  have b: "round64 (- 90 * MathPI) = - round64 (90 * MathPI)"
    using round64_minus [of "90 * MathPI"] by simp
  have c: "round64 (- round64 (90 * MathPI) / 180) = - round64 (round64 (90 * MathPI) / 180)"
    using round64_minus [of "round64 (90 * MathPI) / 180"] by simp
  from angleRad_zero have "round64 (round64 (90 * MathPI) / 180) = MathPI / 2"
    by (simp add: round64_minus b c)
  with a show ?thesis by simp
qed

lemma cos_MathPI: "cos MathPI = - cos (2 * halfGap)"
proof -
  have "MathPI = pi - 2 * halfGap" by (simp add: halfGap_def)
  then show ?thesis by (metis cos_pi_minus)
qed

lemma sin_MathPI: "sin MathPI = sin (2 * halfGap)"
proof -
  have "MathPI = pi - 2 * halfGap" by (simp add: halfGap_def)
  then show ?thesis by (metis sin_pi_minus)
qed

lemma mathCos_MathPI: "mathCos MathPI = - 1" "mathCos (- MathPI) = - 1"
proof -
  have "(2 * halfGap)\<^sup>2 < (2 * (612325 / 10 ^ 22))\<^sup>2"
    using halfGap_bounds by (intro power_strict_mono) simp_all
  moreover have "(2 * (612325 / 10 ^ 22))\<^sup>2 < (1 / 2 ^ 53 :: real)"
    by (simp add: power2_eq_square)
  ultimately have "1 - 1 / 2 ^ 54 < 1 - (2 * halfGap)\<^sup>2 / 2"
    by simp
  with cos_lower [of "2 * halfGap"] have "1 - 1 / 2 ^ 54 < cos (2 * halfGap)"
    by linarith
  from round64_near_one [OF this] show "mathCos MathPI = - 1" "mathCos (- MathPI) = - 1"
    by (simp_all add: mathCos_def cos_MathPI round64_minus)
qed

lemma mathSin_MathPI:
  "0 < mathSin MathPI" "mathSin MathPI < 1224651 / 10 ^ 22" "mathSin (- MathPI) = - mathSin MathPI"
proof -
  have g: "0 < 2 * halfGap" "2 * halfGap < 1224650 / 10 ^ 22"
    using halfGap_bounds by simp_all
  then have "2 * halfGap < pi"
    using pi_ge_two by simp
  with g(1) have s: "0 < sin (2 * halfGap)"
    by (rule sin_gt_zero)
  have le: "sin (2 * halfGap) \<le> 2 * halfGap"
    using g(1) by (intro sin_x_le_x) simp
  show "0 < mathSin MathPI"
    unfolding mathSin_def sin_MathPI using s by (rule round64_pos)
  have "round64 (sin (2 * halfGap)) \<le> sin (2 * halfGap) + 2 powr (- 53) * sin (2 * halfGap)"
    using round64_error [of "sin (2 * halfGap)"] s by (simp add: abs_le_iff)
  also have "\<dots> = sin (2 * halfGap) * (1 + 1 / 2 ^ 53)"
    by (simp add: powr_minus field_simps)
  also have "\<dots> \<le> (2 * halfGap) * (1 + 1 / 2 ^ 53)"
    using le by (intro mult_right_mono) simp_all
  also have "\<dots> < 1224650 / 10 ^ 22 * (1 + 1 / 2 ^ 53)"
    using g(2) by (intro mult_strict_right_mono) simp_all
  also have "\<dots> < 1224651 / 10 ^ 22"
    by simp
  finally show "mathSin MathPI < 1224651 / 10 ^ 22"
    unfolding mathSin_def sin_MathPI .
  show "mathSin (- MathPI) = - mathSin MathPI"
    by (simp add: mathSin_def round64_minus)
qed

lemma mathSin_half_MathPI: "mathSin (MathPI / 2) = 1"
  using round64_near_one [OF cos_halfGap] by (simp add: mathSin_def sin_half_MathPI)

lemma mathCos_half_MathPI: "mathCos (MathPI / 2) = mathCos (- (MathPI / 2))"
  by (simp add: mathCos_def)

lemma sin_term_small:
  assumes "0 \<le> r" and "r \<le> 110"
  shows "0 \<le> round64 (r * mathSin MathPI)"
    and "round64 (r * mathSin MathPI) < 2 powr of_int (7 - 53)"
proof -
  define s where "s = mathSin MathPI"
  have s: "0 < s" "s < 1224651 / 10 ^ 22"
    using mathSin_MathPI by (simp_all add: s_def)
  have rs: "0 \<le> r * s"
    using assms(1) s(1) by simp
  then show "0 \<le> round64 (r * mathSin MathPI)"
    unfolding s_def by (rule round64_nonneg)
  have p: "(2::real) powr (- 53) = 1 / 2 ^ 53"
    by (simp add: powr_minus field_simps)
  from round64_error [of "r * s"] rs
  have "round64 (r * s) \<le> r * s + 1 / 2 ^ 53 * (r * s)"
    unfolding p by linarith
  also have "\<dots> = r * (s * (1 + 1 / 2 ^ 53))"
    by (simp add: algebra_simps)
  also have "\<dots> \<le> 110 * (s * (1 + 1 / 2 ^ 53))"
    using assms(2) s(1) by (intro mult_right_mono) simp_all
  also have "\<dots> < 110 * (1224651 / 10 ^ 22 * (1 + 1 / 2 ^ 53))"
    using s(2) by (intro mult_strict_left_mono mult_strict_right_mono) simp_all
  also have "\<dots> < 1 / 2 ^ 46"
    by simp
  also have "\<dots> = 2 powr of_int (7 - 53)"
    by (simp add: powr_minus field_simps)
  finally show "round64 (r * mathSin MathPI) < 2 powr of_int (7 - 53)"
    unfolding s_def .
qed

lemma round64_150:
  assumes "0 \<le> t" and "t < 2 powr of_int (7 - 53)"
  shows "round64 (150 + t) = 150" and "round64 (150 - t) = 150"
proof -
  have d: "round64 150 = 150" by simp
  have lo: "2 powr of_int 7 < (150::real)" and hi: "(150::real) < 2 powr of_int (7 + 1)"
    by simp_all
  from lo have lo': "2 powr of_int 7 \<le> (150::real)" by simp
  show "round64 (150 + t) = 150"
    using d lo' hi assms by (rule round64_absorb)
  show "round64 (150 - t) = 150"
    using d lo hi assms by (rule round64_absorb_below)
qed

lemma polarToCartesian64_traced:
  assumes "round64 r = r" and "0 \<le> r" and "r \<le> 110"
  shows "polarToCartesian64 300 150 r (- 90) = (round64 (300 - r), 150)"
    and "polarToCartesian64 300 150 r 180 = (300, round64 (150 + r))"
    and "polarToCartesian64 300 150 r 270 = (round64 (300 - r), 150)"
proof -
  note small = sin_term_small [OF assms(2,3)]
  have x: "round64 (300 + round64 (r * mathCos (- (MathPI / 2)))) = 300"
    using assms(2,3) by (intro cosTop_absorbed) simp_all
  have "polarToCartesian64 300 150 r (- 90)
      = (round64 (300 + round64 (r * mathCos (- MathPI))),
         round64 (150 + round64 (r * mathSin (- MathPI))))"
    unfolding polarToCartesian64_def Let_def angleRad_minus_90 ..
  also have "round64 (r * mathCos (- MathPI)) = - r"
    using assms(1) by (simp add: mathCos_MathPI round64_minus)
  also have "round64 (r * mathSin (- MathPI)) = - round64 (r * mathSin MathPI)"
    by (simp add: mathSin_MathPI(3) round64_minus)
  finally show "polarToCartesian64 300 150 r (- 90) = (round64 (300 - r), 150)"
    using round64_150(2) [OF small] by simp
  have "polarToCartesian64 300 150 r 180
      = (round64 (300 + round64 (r * mathCos (MathPI / 2))),
         round64 (150 + round64 (r * mathSin (MathPI / 2))))"
    unfolding polarToCartesian64_def Let_def angleRad_180 ..
  then show "polarToCartesian64 300 150 r 180 = (300, round64 (150 + r))"
    using x assms(1) by (simp add: mathSin_half_MathPI mathCos_half_MathPI)
  have "polarToCartesian64 300 150 r 270
      = (round64 (300 + round64 (r * mathCos MathPI)),
         round64 (150 + round64 (r * mathSin MathPI)))"
    unfolding polarToCartesian64_def Let_def angleRad_270 ..
  also have "round64 (r * mathCos MathPI) = - r"
    using assms(1) by (simp add: mathCos_MathPI round64_minus)
  finally show "polarToCartesian64 300 150 r 270 = (round64 (300 - r), 150)"
    using round64_150(1) [OF small] by simp
qed

lemma rounding_keeps_traced_points:
  "polarToCartesian64 300 150 110 (- 90) = (190, 150)"
  "polarToCartesian64 300 150 110 180 = (300, 260)"
  "polarToCartesian64 300 150 110 270 = (190, 150)"
  "polarToCartesian64 300 150 66 (- 90) = (234, 150)"
  "polarToCartesian64 300 150 66 180 = (300, 216)"
  "polarToCartesian64 300 150 66 270 = (234, 150)"
  using polarToCartesian64_traced [of 110] polarToCartesian64_traced [of 66]
  by simp_all

lemma rounding_agrees_on_traced_points:
  "polarToCartesian64 300 150 110 (- 90) = polarToCartesian 300 150 110 (- 90)"
  "polarToCartesian64 300 150 110 180 = polarToCartesian 300 150 110 180"
  "polarToCartesian64 300 150 110 270 = polarToCartesian 300 150 110 270"
  "polarToCartesian64 300 150 66 (- 90) = polarToCartesian 300 150 66 (- 90)"
  "polarToCartesian64 300 150 66 180 = polarToCartesian 300 150 66 180"
  "polarToCartesian64 300 150 66 270 = polarToCartesian 300 150 66 270"
  by (simp_all add: rounding_keeps_traced_points polarToCartesian_def Let_def)

end
